theory Spec2Isabelle
  imports Complex_Main "HOL-Library.Log_Nat" "HOL-Library.AList"
begin

section \<open>JavaScript numbers\<close>

text \<open>
  A JavaScript \<^verbatim>\<open>number\<close> is an IEEE-754 binary64 value. It is modelled by the rational
  it denotes; every arithmetic operation is the exact operation followed by rounding to
  the nearest value with a 53-bit significand, ties to even (\<open>fl\<close>). Infinities, NaN,
  negative zero and the subnormal range are not modelled: the amounts, wages and
  durations of the services below stay far inside the normal range.
\<close>

type_synonym number = rat

definition ilog2 :: "rat \<Rightarrow> int" where
  "ilog2 x =
     (if 1 \<le> x then bitlen \<lfloor>x\<rfloor> - 1
      else (let k = bitlen \<lfloor>1 / x\<rfloor> - 1
            in if x * 2 ^ nat k = 1 then - k else - k - 1))"

definition round_half_even :: "rat \<Rightarrow> int" where
  "round_half_even q =
     (let f = \<lfloor>q\<rfloor>; r = q - of_int f
      in if r < 1 / 2 then f
         else if 1 / 2 < r then f + 1
         else if even f then f else f + 1)"

definition fl :: "rat \<Rightarrow> number" where
  "fl x =
     (if x = 0 then 0
      else (let a = \<bar>x\<bar>; u = 2 powi (ilog2 a - 52)
            in sgn x * of_int (round_half_even (a / u)) * u))"

definition js_add :: "number \<Rightarrow> number \<Rightarrow> number" where
  "js_add a b = fl (a + b)"

definition js_sub :: "number \<Rightarrow> number \<Rightarrow> number" where
  "js_sub a b = fl (a - b)"

definition js_mul :: "number \<Rightarrow> number \<Rightarrow> number" where
  "js_mul a b = fl (a * b)"

text \<open>Division is only ever applied to the non-zero literals 60, 100 and 3600000.\<close>

definition js_div :: "number \<Rightarrow> number \<Rightarrow> number" where
  "js_div a b = fl (a / b)"

text \<open>
  \<^verbatim>\<open>Math.round\<close> returns the integer closest to its argument, the larger one on a tie;
  \<^verbatim>\<open>Math.max\<close> of two numbers is their maximum. Both are exact.
\<close>

definition Math_round :: "number \<Rightarrow> number" where
  "Math_round x = of_int \<lfloor>x + 1 / 2\<rfloor>"

definition Math_max :: "number \<Rightarrow> number \<Rightarrow> number" where
  "Math_max a b = max a b"

section \<open>Dates\<close>

text \<open>
  A \<^verbatim>\<open>Date\<close> is its \<^verbatim>\<open>getTime()\<close>: milliseconds since the epoch, an integer. The
  local-time getters depend on the time zone of the server process, a fixed offset
  from UTC in minutes here (\<open>tzOffset\<close>, positive east of Greenwich).
\<close>

type_synonym Date = int

definition msPerDay :: int where
  "msPerDay = 86400000"

text \<open>The proleptic Gregorian date (year, month, day) of a day number counted from 1970-01-01.\<close>

definition civil_from_days :: "int \<Rightarrow> int \<times> int \<times> int" where
  "civil_from_days z0 =
     (let z = z0 + 719468;
          era = z div 146097;
          doe = z - era * 146097;
          yoe = (doe - doe div 1460 + doe div 36524 - doe div 146096) div 365;
          doy = doe - (365 * yoe + yoe div 4 - yoe div 100);
          mp = (5 * doy + 2) div 153;
          d = doy - (153 * mp + 2) div 5 + 1;
          m = (if mp < 10 then mp + 3 else mp - 9);
          y = yoe + era * 400 + (if m \<le> 2 then 1 else 0)
      in (y, m, d))"

definition digit_char :: "nat \<Rightarrow> char" where
  "digit_char n = char_of (48 + n mod 10)"

fun String_nat :: "nat \<Rightarrow> string" where
  "String_nat n = (if n < 10 then [digit_char n] else String_nat (n div 10) @ [digit_char n])"

declare String_nat.simps [simp del]

definition padStart :: "string \<Rightarrow> nat \<Rightarrow> char \<Rightarrow> string" where
  "padStart s n c = replicate (n - length s) c @ s"

definition pad_int :: "nat \<Rightarrow> int \<Rightarrow> string" where
  "pad_int w i = padStart (String_nat (nat i)) w (CHR ''0'')"

text \<open>\<^verbatim>\<open>toISOString()\<close> for the years 0000 to 9999: \<^verbatim>\<open>YYYY-MM-DDTHH:mm:ss.sssZ\<close>, in UTC.\<close>

definition toISOString :: "Date \<Rightarrow> string" where
  "toISOString t =
     (let (y, m, d) = civil_from_days (t div msPerDay);
          ms = t mod msPerDay
      in pad_int 4 y @ ''-'' @ pad_int 2 m @ ''-'' @ pad_int 2 d @ ''T''
         @ pad_int 2 (ms div 3600000) @ '':'' @ pad_int 2 (ms div 60000 mod 60) @ '':''
         @ pad_int 2 (ms div 1000 mod 60) @ ''.'' @ pad_int 3 (ms mod 1000) @ ''Z'')"

text \<open>
  \<^verbatim>\<open>new Date(t.getFullYear(), t.getMonth(), t.getDate() + k)\<close>: midnight, in the server's
  zone, of the local day of \<open>t\<close> shifted by \<open>k\<close> days.
\<close>

definition localMidnight :: "int \<Rightarrow> Date \<Rightarrow> int \<Rightarrow> Date" where
  "localMidnight tzOffset t k =
     ((t + tzOffset * 60000) div msPerDay + k) * msPerDay - tzOffset * 60000"

section \<open>Data model\<close>

datatype Role = SUPERADMIN | RESTAURANT_OWNER | EMPLOYEE | CUSTOMER

record User =
  u_id :: string
  u_name :: string
  u_role :: Role

datatype error =
    NotFoundException string
  | ForbiddenException string
  | BadRequestException string
  | TypeError string
  | PrismaClientKnownRequestError string

text \<open>
  Reading a property of a relation that is \<^verbatim>\<open>null\<close> throws a \<^verbatim>\<open>TypeError\<close> whose message
  names the property in single quotes.
\<close>

definition null_read :: "string \<Rightarrow> error" where
  "null_read property =
     TypeError (''Cannot read properties of null (reading '' @ [CHR 0x27] @ property
                @ [CHR 0x27] @ '')'')"

datatype OrderStatus = PENDING | PREPARING | READY | COMPLETED | CANCELLED

fun OrderStatus_str :: "OrderStatus \<Rightarrow> string" where
  "OrderStatus_str PENDING = ''PENDING''"
| "OrderStatus_str PREPARING = ''PREPARING''"
| "OrderStatus_str READY = ''READY''"
| "OrderStatus_str COMPLETED = ''COMPLETED''"
| "OrderStatus_str CANCELLED = ''CANCELLED''"

record Restaurant =
  r_id :: string
  r_name :: string
  r_ownerId :: string
  r_status :: string
  r_foodcourtId :: string

record Table =
  t_id :: string
  t_foodcourtId :: string

record Variant =
  v_name :: string
  v_priceModifier :: "number option"

record Product =
  pr_id :: string
  pr_name :: string
  pr_price :: number
  pr_isAvailable :: bool
  pr_categoryRestaurantId :: string
  pr_variants :: "Variant list option"

record OrderItem =
  oi_orderId :: string
  oi_productId :: string
  oi_variant :: "string option"
  oi_quantity :: number
  oi_unitPrice :: number
  oi_totalPrice :: number
  oi_specialInstructions :: "string option"

record Order =
  o_id :: string
  o_orderNumber :: string
  o_status :: OrderStatus
  o_customerName :: string
  o_customerPhone :: string
  o_totalAmount :: number
  o_deliveryType :: string
  o_specialInstructions :: "string option"
  o_paymentMethod :: "string option"
  o_estimatedTime :: "number option"
  o_restaurantId :: string
  o_tableId :: "string option"
  o_customerId :: "string option"
  o_createdAt :: Date
  o_updatedAt :: Date

datatype PaymentMethod = STRIPE | YOOKASSA | CASH | CARD_TERMINAL

datatype PaymentStatus = P_PENDING | P_COMPLETED | P_FAILED | P_REFUNDED

text \<open>JSON values of the \<^verbatim>\<open>metadata\<close> column; an object keeps its keys in insertion order.\<close>

datatype json = JNull | JStr string | JNum number | JObj "(string \<times> json) list"

record Payment =
  p_id :: string
  p_orderId :: string
  p_amount :: number
  p_currency :: string
  p_method :: PaymentMethod
  p_status :: PaymentStatus
  p_commission :: number
  p_commissionAmount :: number
  p_netAmount :: number
  p_provider :: string
  p_externalPaymentId :: "string option"
  p_paymentUrl :: "string option"
  p_metadata :: "(string \<times> json) list"

datatype ShiftStatus = S_SCHEDULED | S_ACTIVE | S_COMPLETED | S_CANCELLED

record Employee =
  e_id :: string
  e_name :: string
  e_userId :: "string option"
  e_restaurantId :: string
  e_hourlyWage :: "number option"

record Shift =
  s_id :: string
  s_employeeId :: string
  s_startTime :: Date
  s_endTime :: Date
  s_actualStartTime :: "Date option"
  s_actualEndTime :: "Date option"
  s_breakDuration :: "number option"
  s_notes :: "string option"
  s_status :: ShiftStatus

text \<open>The database: one list of rows per table, in insertion order.\<close>

record db =
  restaurants :: "Restaurant list"
  tables :: "Table list"
  products :: "Product list"
  orders :: "Order list"
  orderItems :: "OrderItem list"
  payments :: "Payment list"
  employees :: "Employee list"
  shifts :: "Shift list"

section \<open>OrdersService\<close>

record UpdateOrderStatusDto =
  usd_status :: OrderStatus
  usd_note :: "string option"
  usd_estimatedTime :: "number option"

record CancelOrderDto =
  cd_reason :: string
  cd_refund :: "bool option"

definition verifyOrderAccess :: "db \<Rightarrow> Order \<Rightarrow> User \<Rightarrow> error + unit" where
  "verifyOrderAccess d order currentUser =
     (if u_role currentUser = SUPERADMIN then Inr ()
      else if u_role currentUser = RESTAURANT_OWNER then
        (case find (\<lambda>r. r_id r = o_restaurantId order) (restaurants d) of
           None \<Rightarrow> Inl (null_read ''ownerId'')
         | Some r \<Rightarrow>
             if r_ownerId r \<noteq> u_id currentUser
             then Inl (ForbiddenException ''You can only access orders from your own restaurants'')
             else Inr ())
      else if u_role currentUser = EMPLOYEE then Inr ()
      else if o_customerId order \<noteq> Some (u_id currentUser)
           then Inl (ForbiddenException ''You can only access your own orders'')
           else Inr ())"

definition OrdersService_findOne :: "db \<Rightarrow> string \<Rightarrow> User \<Rightarrow> error + Order" where
  "OrdersService_findOne d i currentUser =
     (case find (\<lambda>x. o_id x = i) (orders d) of
        None \<Rightarrow> Inl (NotFoundException (''Order with ID '' @ i @ '' not found''))
      | Some order \<Rightarrow>
          (case verifyOrderAccess d order currentUser of
             Inl e \<Rightarrow> Inl e
           | Inr _ \<Rightarrow> Inr order))"

fun validTransitions :: "OrderStatus \<Rightarrow> OrderStatus list" where
  "validTransitions PENDING = [PREPARING, CANCELLED]"
| "validTransitions PREPARING = [READY, CANCELLED]"
| "validTransitions READY = [COMPLETED, CANCELLED]"
| "validTransitions COMPLETED = []"
| "validTransitions CANCELLED = []"

definition validateStatusTransition :: "OrderStatus \<Rightarrow> OrderStatus \<Rightarrow> error + unit" where
  "validateStatusTransition currentStatus newStatus =
     (if newStatus \<notin> set (validTransitions currentStatus)
      then Inl (BadRequestException (''Invalid status transition from ''
             @ OrderStatus_str currentStatus @ '' to '' @ OrderStatus_str newStatus))
      else Inr ())"

definition update_order :: "string \<Rightarrow> Order \<Rightarrow> db \<Rightarrow> db" where
  "update_order i order' d = d\<lparr>orders := map (\<lambda>x. if o_id x = i then order' else x) (orders d)\<rparr>"

text \<open>
  Every service method takes the database and the clock reading of its \<^verbatim>\<open>new Date()\<close>
  and returns its result, or the exception it throws, together with the database it
  leaves behind.
\<close>

text \<open>
  \<^verbatim>\<open>updateStatus\<close> runs in two stages separated by an \<^verbatim>\<open>await\<close>. The first one reads the
  order through \<^verbatim>\<open>findOne\<close>, validates the transition against the status it has read and
  checks the caller's role (\<open>updateStatus_check\<close>). The second one is
  \<^verbatim>\<open>prisma.order.update({ where: { id }, data: ... })\<close>: it sets the three fields on the
  row the database holds at that moment, whatever its status is then, and fails only
  when no row has the id (\<open>updateStatus_update\<close>). No transaction spans the two, so
  other requests may run in between; \<open>OrdersService_updateStatus\<close> is the run in
  which none does.
\<close>

definition updateStatus_check ::
  "db \<Rightarrow> string \<Rightarrow> UpdateOrderStatusDto \<Rightarrow> User \<Rightarrow> error + Order" where
  "updateStatus_check d i updateStatusDto currentUser =
     (case OrdersService_findOne d i currentUser of
        Inl e \<Rightarrow> Inl e
      | Inr order \<Rightarrow>
          (case validateStatusTransition (o_status order) (usd_status updateStatusDto) of
             Inl e \<Rightarrow> Inl e
           | Inr _ \<Rightarrow>
               if u_role currentUser \<notin> {SUPERADMIN, RESTAURANT_OWNER, EMPLOYEE}
               then Inl (ForbiddenException ''Only restaurant staff can update order status'')
               else Inr order))"

definition status_data :: "Date \<Rightarrow> UpdateOrderStatusDto \<Rightarrow> Order \<Rightarrow> Order" where
  "status_data now updateStatusDto row =
     row\<lparr>o_status := usd_status updateStatusDto,
         o_estimatedTime :=
           (case usd_estimatedTime updateStatusDto of
              None \<Rightarrow> o_estimatedTime row
            | Some t \<Rightarrow> Some t),
         o_updatedAt := now\<rparr>"

definition updateStatus_update ::
  "db \<Rightarrow> Date \<Rightarrow> string \<Rightarrow> UpdateOrderStatusDto \<Rightarrow> (error + Order) \<times> db" where
  "updateStatus_update d now i updateStatusDto =
     (case find (\<lambda>x. o_id x = i) (orders d) of
        None \<Rightarrow> (Inl (PrismaClientKnownRequestError ''Record to update not found.''), d)
      | Some row \<Rightarrow>
          (Inr (status_data now updateStatusDto row),
           d\<lparr>orders := map (\<lambda>x. if o_id x = i then status_data now updateStatusDto x else x)
                          (orders d)\<rparr>))"

definition OrdersService_updateStatus ::
  "db \<Rightarrow> Date \<Rightarrow> string \<Rightarrow> UpdateOrderStatusDto \<Rightarrow> User \<Rightarrow> (error + Order) \<times> db" where
  "OrdersService_updateStatus d now i updateStatusDto currentUser =
     (case updateStatus_check d i updateStatusDto currentUser of
        Inl e \<Rightarrow> (Inl e, d)
      | Inr order \<Rightarrow> updateStatus_update d now i updateStatusDto)"

definition cancelled_instructions :: "string option \<Rightarrow> string \<Rightarrow> string" where
  "cancelled_instructions si reason =
     (case si of
        None \<Rightarrow> ''CANCELLED: '' @ reason
      | Some s \<Rightarrow>
          if s = [] then ''CANCELLED: '' @ reason
          else s @ [CHR 0x0A, CHR 0x0A] @ ''CANCELLED: '' @ reason)"

text \<open>
  \<^verbatim>\<open>cancel\<close> ends with a branch on \<^verbatim>\<open>cancelDto.refund && cancelledOrder.payment\<close> whose body is
  empty (the call of the payment service is commented out), so no payment is read or
  written and the branch contributes nothing to the result.
\<close>

definition OrdersService_cancel ::
  "db \<Rightarrow> Date \<Rightarrow> string \<Rightarrow> CancelOrderDto \<Rightarrow> User \<Rightarrow> (error + Order) \<times> db" where
  "OrdersService_cancel d now i cancelDto currentUser =
     (case OrdersService_findOne d i currentUser of
        Inl e \<Rightarrow> (Inl e, d)
      | Inr order \<Rightarrow>
          if o_status order = COMPLETED
          then (Inl (BadRequestException ''Cannot cancel a completed order''), d)
          else if o_status order = CANCELLED
          then (Inl (BadRequestException ''Order is already cancelled''), d)
          else
            (let cancelledOrder = order
                   \<lparr>o_status := CANCELLED,
                    o_specialInstructions :=
                      Some (cancelled_instructions (o_specialInstructions order) (cd_reason cancelDto)),
                    o_updatedAt := now\<rparr>
             in (Inr cancelledOrder, update_order i cancelledOrder d)))"

record OrderItemDto =
  oid_productId :: string
  oid_variant :: "string option"
  oid_quantity :: number
  oid_unitPrice :: number
  oid_specialInstructions :: "string option"

record CreateOrderDto =
  cod_restaurantId :: string
  cod_tableId :: "string option"
  cod_items :: "OrderItemDto list"
  cod_customerName :: string
  cod_customerPhone :: string
  cod_specialInstructions :: "string option"
  cod_deliveryType :: "string option"
  cod_paymentMethod :: "string option"

text \<open>JavaScript truthiness of an optional string: \<^verbatim>\<open>undefined\<close> and \<^verbatim>\<open>''\<close> are falsy.\<close>

definition truthy_str :: "string option \<Rightarrow> bool" where
  "truthy_str s = (case s of None \<Rightarrow> False | Some v \<Rightarrow> v \<noteq> [])"

definition or_str :: "string option \<Rightarrow> string \<Rightarrow> string" where
  "or_str s dflt = (case s of None \<Rightarrow> dflt | Some v \<Rightarrow> if v = [] then dflt else v)"

definition or_num :: "number option \<Rightarrow> number \<Rightarrow> number" where
  "or_num n dflt = (case n of None \<Rightarrow> dflt | Some v \<Rightarrow> if v = 0 then dflt else v)"

definition itemPrice :: "Product \<Rightarrow> OrderItemDto \<Rightarrow> number" where
  "itemPrice product item =
     (case pr_variants product of
        None \<Rightarrow> pr_price product
      | Some variants \<Rightarrow>
          if truthy_str (oid_variant item) then
            (case find (\<lambda>v. Some (v_name v) = oid_variant item) variants of
               None \<Rightarrow> pr_price product
             | Some selectedVariant \<Rightarrow>
                 js_add (pr_price product) (or_num (v_priceModifier selectedVariant) 0))
          else pr_price product)"

text \<open>
  The loop over \<^verbatim>\<open>createOrderDto.items\<close>: the running total and the validated items so
  far are the accumulators; the first failing item throws.
\<close>

fun validate_items ::
  "db \<Rightarrow> string \<Rightarrow> OrderItemDto list \<Rightarrow> number \<Rightarrow> OrderItem list
     \<Rightarrow> error + (number \<times> OrderItem list)" where
  "validate_items d restaurantId [] totalAmount validatedItems = Inr (totalAmount, validatedItems)"
| "validate_items d restaurantId (item # rest) totalAmount validatedItems =
     (case find (\<lambda>p. pr_id p = oid_productId item) (products d) of
        None \<Rightarrow> Inl (NotFoundException (''Product with ID '' @ oid_productId item @ '' not found''))
      | Some product \<Rightarrow>
          if pr_categoryRestaurantId product \<noteq> restaurantId
          then Inl (BadRequestException ''Product does not belong to this restaurant'')
          else if \<not> pr_isAvailable product
          then Inl (BadRequestException
                 (''Product '' @ [CHR 0x22] @ pr_name product @ [CHR 0x22]
                   @ '' is currently unavailable''))
          else
            (let price = itemPrice product item;
                 itemTotal = js_mul price (oid_quantity item)
             in validate_items d restaurantId rest (js_add totalAmount itemTotal)
                  (validatedItems @
                     [\<lparr>oi_orderId = [], oi_productId = oid_productId item,
                       oi_variant = oid_variant item, oi_quantity = oid_quantity item,
                       oi_unitPrice = price, oi_totalPrice = itemTotal,
                       oi_specialInstructions = oid_specialInstructions item\<rparr>])))"

text \<open>
  \<^verbatim>\<open>generateOrderNumber\<close>: the date part is the UTC date of \<^verbatim>\<open>toISOString()\<close> with the
  dashes removed; the counter is the number of orders of the restaurant created between
  the two local midnights around now, plus one, padded to three digits.
\<close>

definition dateStr :: "Date \<Rightarrow> string" where
  "dateStr today = filter (\<lambda>c. c \<noteq> CHR ''-'') (take 10 (toISOString today))"

definition dailyCount :: "db \<Rightarrow> int \<Rightarrow> Date \<Rightarrow> string \<Rightarrow> nat" where
  "dailyCount d tzOffset today restaurantId =
     length (filter (\<lambda>x. o_restaurantId x = restaurantId
                        \<and> localMidnight tzOffset today 0 \<le> o_createdAt x
                        \<and> o_createdAt x < localMidnight tzOffset today 1) (orders d))"

definition generateOrderNumber :: "db \<Rightarrow> int \<Rightarrow> Date \<Rightarrow> string \<Rightarrow> string" where
  "generateOrderNumber d tzOffset today restaurantId =
     dateStr today @ ''-''
       @ padStart (String_nat (dailyCount d tzOffset today restaurantId + 1)) 3 (CHR ''0'')"

text \<open>
  \<^verbatim>\<open>create\<close> runs in two stages separated by \<^verbatim>\<open>await\<close>s. The first one reads: it checks
  the restaurant and the table, validates the items and generates the order number
  (\<open>create_validate\<close>). The second one is the transaction that inserts the order and
  its items (\<open>create_transaction\<close>); \<open>newId\<close> is the identifier the database gives
  the new row and \<open>now\<close> its \<^verbatim>\<open>createdAt\<close>. Nothing holds a lock between the two.
\<close>

definition create_validate ::
  "db \<Rightarrow> int \<Rightarrow> Date \<Rightarrow> CreateOrderDto \<Rightarrow> error + (string \<times> number \<times> OrderItem list)" where
  "create_validate d tzOffset today createOrderDto =
     (case find (\<lambda>r. r_id r = cod_restaurantId createOrderDto) (restaurants d) of
        None \<Rightarrow> Inl (NotFoundException (''Restaurant with ID ''
                   @ cod_restaurantId createOrderDto @ '' not found''))
      | Some restaurant \<Rightarrow>
          if r_status restaurant \<noteq> ''ACTIVE''
          then Inl (BadRequestException ''Restaurant is not currently accepting orders'')
          else if truthy_str (cod_tableId createOrderDto)
                  \<and> find (\<lambda>t. Some (t_id t) = cod_tableId createOrderDto
                                \<and> t_foodcourtId t = r_foodcourtId restaurant) (tables d) = None
          then Inl (NotFoundException ''Table not found in this foodcourt'')
          else
            (case validate_items d (cod_restaurantId createOrderDto)
                    (cod_items createOrderDto) 0 [] of
               Inl e \<Rightarrow> Inl e
             | Inr (totalAmount, validatedItems) \<Rightarrow>
                 Inr (generateOrderNumber d tzOffset today (r_id restaurant),
                      totalAmount, validatedItems)))"

definition create_transaction ::
  "db \<Rightarrow> Date \<Rightarrow> string \<Rightarrow> CreateOrderDto \<Rightarrow> User \<Rightarrow> string \<times> number \<times> OrderItem list
     \<Rightarrow> Order \<times> db" where
  "create_transaction d now newId createOrderDto currentUser v =
     (case v of (orderNumber, totalAmount, validatedItems) \<Rightarrow>
        (let newOrder =
               \<lparr>o_id = newId, o_orderNumber = orderNumber, o_status = PENDING,
                o_customerName = cod_customerName createOrderDto,
                o_customerPhone = cod_customerPhone createOrderDto,
                o_totalAmount = totalAmount,
                o_deliveryType = or_str (cod_deliveryType createOrderDto) ''DINE_IN'',
                o_specialInstructions = cod_specialInstructions createOrderDto,
                o_paymentMethod = cod_paymentMethod createOrderDto,
                o_estimatedTime = None,
                o_restaurantId = cod_restaurantId createOrderDto,
                o_tableId = cod_tableId createOrderDto,
                o_customerId =
                  (if u_role currentUser = CUSTOMER then Some (u_id currentUser) else None),
                o_createdAt = now, o_updatedAt = now\<rparr>
         in (newOrder,
             d\<lparr>orders := orders d @ [newOrder],
               orderItems := orderItems d
                 @ map (\<lambda>it. it\<lparr>oi_orderId := newId\<rparr>) validatedItems\<rparr>)))"

definition OrdersService_create ::
  "db \<Rightarrow> int \<Rightarrow> Date \<Rightarrow> string \<Rightarrow> CreateOrderDto \<Rightarrow> User \<Rightarrow> (error + Order) \<times> db" where
  "OrdersService_create d tzOffset now newId createOrderDto currentUser =
     (case create_validate d tzOffset now createOrderDto of
        Inl e \<Rightarrow> (Inl e, d)
      | Inr v \<Rightarrow>
          (case create_transaction d now newId createOrderDto currentUser v of
             (newOrder, d') \<Rightarrow> (Inr newOrder, d')))"

section \<open>PaymentsService\<close>

text \<open>
  The service's configuration and the replies of the two payment providers. A reply
  \<open>Inl m\<close> is a call that throws an error with message \<open>m\<close>.
\<close>

record StripePaymentIntent =
  spi_id :: string
  spi_client_secret :: string

record YookassaPayment =
  yk_id :: string
  yk_confirmation_url :: string
  yk_status :: string

record Providers =
  stripeConfigured :: bool
  yookassaShopId :: string
  yookassaSecretKey :: string
  stripe_paymentIntents_create :: "string + StripePaymentIntent"
  yookassa_post_payments :: "string + YookassaPayment"
  stripe_refunds_create :: "string + string"
  yookassa_post_refunds :: "string + string"

text \<open>
  \<^verbatim>\<open>private readonly commissionRate: number = 0.05\<close>: the binary64 value of the literal
  \<^verbatim>\<open>0.05\<close>, which is \<open>3602879701896397 / 2^56\<close>.
\<close>

definition commissionRate :: number where
  "commissionRate = 3602879701896397 / 2 ^ 56"

record CreatePaymentDto =
  cpd_orderId :: string
  cpd_amount :: number
  cpd_method :: PaymentMethod
  cpd_currency :: "string option"
  cpd_customerEmail :: "string option"
  cpd_description :: "string option"
  cpd_returnUrl :: "string option"
  cpd_cancelUrl :: "string option"

record CashPaymentDto =
  cash_orderId :: string
  cash_amountReceived :: number
  cash_changeGiven :: "number option"
  cash_processedBy :: "string option"

record CardTerminalPaymentDto =
  term_orderId :: string
  term_terminalTransactionId :: string
  term_terminalId :: string
  term_cardLast4 :: "string option"
  term_cardType :: "string option"

record RefundPaymentDto =
  rd_amount :: "number option"
  rd_reason :: string

text \<open>
  An object literal stored in a JSON column: a property whose value is \<^verbatim>\<open>undefined\<close>
  (\<open>None\<close>) is dropped when the object is serialised.
\<close>

definition json_obj :: "(string \<times> json option) list \<Rightarrow> (string \<times> json) list" where
  "json_obj kvs = List.map_filter (\<lambda>(k, v). map_option (\<lambda>j. (k, j)) v) kvs"

text \<open>
  \<^verbatim>\<open>{ ...obj, k: v }\<close>: an existing key keeps its place and takes the new value, a new
  key is appended (\<^const>\<open>AList.update\<close>).
\<close>

definition spread_set :: "string \<Rightarrow> json \<Rightarrow> (string \<times> json) list \<Rightarrow> (string \<times> json) list" where
  "spread_set k v obj = AList.update k v obj"

definition update_payment :: "string \<Rightarrow> Payment \<Rightarrow> db \<Rightarrow> db" where
  "update_payment i payment' d =
     d\<lparr>payments := map (\<lambda>x. if p_id x = i then payment' else x) (payments d)\<rparr>"

definition processStripePayment ::
  "Providers \<Rightarrow> db \<Rightarrow> Payment \<Rightarrow> CreatePaymentDto \<Rightarrow> Order \<Rightarrow> (error + Payment) \<times> db" where
  "processStripePayment env d payment createPaymentDto order =
     (if \<not> stripeConfigured env
      then (Inl (BadRequestException ''Stripe is not configured''), d)
      else
        (case stripe_paymentIntents_create env of
           Inl message \<Rightarrow> (Inl (BadRequestException (''Stripe payment failed: '' @ message)), d)
         | Inr paymentIntent \<Rightarrow>
             (let updated = payment
                    \<lparr>p_externalPaymentId := Some (spi_id paymentIntent),
                     p_paymentUrl :=
                       Some (''https://checkout.stripe.com/pay/'' @ spi_client_secret paymentIntent),
                     p_metadata :=
                       spread_set ''clientSecret'' (JStr (spi_client_secret paymentIntent))
                         (spread_set ''stripePaymentIntentId'' (JStr (spi_id paymentIntent))
                            (p_metadata payment))\<rparr>
              in (Inr updated, update_payment (p_id payment) updated d))))"

definition processYookassaPayment ::
  "Providers \<Rightarrow> db \<Rightarrow> Payment \<Rightarrow> CreatePaymentDto \<Rightarrow> Order \<Rightarrow> (error + Payment) \<times> db" where
  "processYookassaPayment env d payment createPaymentDto order =
     (if yookassaShopId env = [] \<or> yookassaSecretKey env = []
      then (Inl (BadRequestException ''YooKassa is not configured''), d)
      else
        (case yookassa_post_payments env of
           Inl message \<Rightarrow> (Inl (BadRequestException (''YooKassa payment failed: '' @ message)), d)
         | Inr yookassaPayment \<Rightarrow>
             (let updated = payment
                    \<lparr>p_externalPaymentId := Some (yk_id yookassaPayment),
                     p_paymentUrl := Some (yk_confirmation_url yookassaPayment),
                     p_metadata :=
                       spread_set ''yookassaStatus'' (JStr (yk_status yookassaPayment))
                         (spread_set ''yookassaPaymentId'' (JStr (yk_id yookassaPayment))
                            (p_metadata payment))\<rparr>
              in (Inr updated, update_payment (p_id payment) updated d))))"

text \<open>
  \<^verbatim>\<open>create\<close>: the Payment row is inserted with status \<^verbatim>\<open>PENDING\<close> before the provider is
  called, outside any transaction, so it stays in the database when the provider step
  throws.
\<close>

definition PaymentsService_create ::
  "Providers \<Rightarrow> db \<Rightarrow> string \<Rightarrow> CreatePaymentDto \<Rightarrow> User \<Rightarrow> (error + Payment) \<times> db" where
  "PaymentsService_create env d newId createPaymentDto currentUser =
     (case find (\<lambda>x. o_id x = cpd_orderId createPaymentDto) (orders d) of
        None \<Rightarrow> (Inl (NotFoundException (''Order with ID '' @ cpd_orderId createPaymentDto
                   @ '' not found'')), d)
      | Some order \<Rightarrow>
          if find (\<lambda>x. p_orderId x = o_id order) (payments d) \<noteq> None
          then (Inl (BadRequestException ''Order already has a payment''), d)
          else if u_role currentUser = CUSTOMER \<and> o_customerId order \<noteq> Some (u_id currentUser)
          then (Inl (ForbiddenException ''You can only create payments for your own orders''), d)
          else
            (let commissionAmount = Math_round (js_mul (cpd_amount createPaymentDto) commissionRate);
                 netAmount = js_sub (cpd_amount createPaymentDto) commissionAmount;
                 payment =
                   \<lparr>p_id = newId, p_orderId = cpd_orderId createPaymentDto,
                    p_amount = cpd_amount createPaymentDto,
                    p_currency = or_str (cpd_currency createPaymentDto) ''USD'',
                    p_method = cpd_method createPaymentDto,
                    p_status = P_PENDING,
                    p_commission = commissionAmount,
                    p_commissionAmount = commissionAmount,
                    p_netAmount = netAmount,
                    p_provider = ''stripe'',
                    p_externalPaymentId = None,
                    p_paymentUrl = None,
                    p_metadata = json_obj
                      [(''customerEmail'', map_option JStr (cpd_customerEmail createPaymentDto)),
                       (''description'', map_option JStr (cpd_description createPaymentDto)),
                       (''returnUrl'', map_option JStr (cpd_returnUrl createPaymentDto)),
                       (''cancelUrl'', map_option JStr (cpd_cancelUrl createPaymentDto))]\<rparr>;
                 d1 = d\<lparr>payments := payments d @ [payment]\<rparr>
             in case cpd_method createPaymentDto of
                  STRIPE \<Rightarrow> processStripePayment env d1 payment createPaymentDto order
                | YOOKASSA \<Rightarrow> processYookassaPayment env d1 payment createPaymentDto order
                | CASH \<Rightarrow> (Inr payment, d1)
                | CARD_TERMINAL \<Rightarrow> (Inr payment, d1)))"

definition PaymentsService_processCashPayment ::
  "db \<Rightarrow> Date \<Rightarrow> string \<Rightarrow> CashPaymentDto \<Rightarrow> User \<Rightarrow> (error + Payment) \<times> db" where
  "PaymentsService_processCashPayment d now newId cashPaymentDto currentUser =
     (if u_role currentUser \<notin> {SUPERADMIN, RESTAURANT_OWNER, EMPLOYEE}
      then (Inl (ForbiddenException ''Only restaurant staff can process cash payments''), d)
      else
        (case find (\<lambda>x. o_id x = cash_orderId cashPaymentDto) (orders d) of
           None \<Rightarrow> (Inl (NotFoundException ''Order not found''), d)
         | Some order \<Rightarrow>
             if find (\<lambda>x. p_orderId x = o_id order) (payments d) \<noteq> None
             then (Inl (BadRequestException ''Order already has a payment''), d)
             else
               (let commissionAmount = Math_round (js_mul (o_totalAmount order) commissionRate);
                    netAmount = js_sub (o_totalAmount order) commissionAmount;
                    payment =
                      \<lparr>p_id = newId, p_orderId = cash_orderId cashPaymentDto,
                       p_amount = o_totalAmount order,
                       p_currency = ''USD'',
                       p_method = CASH,
                       p_status = P_COMPLETED,
                       p_commission = commissionAmount,
                       p_commissionAmount = commissionAmount,
                       p_netAmount = netAmount,
                       p_provider = ''cash'',
                       p_externalPaymentId = None,
                       p_paymentUrl = None,
                       p_metadata = json_obj
                         [(''amountReceived'', Some (JNum (cash_amountReceived cashPaymentDto))),
                          (''changeGiven'', Some (JNum (or_num (cash_changeGiven cashPaymentDto) 0))),
                          (''processedBy'',
                             Some (JStr (or_str (cash_processedBy cashPaymentDto) (u_name currentUser)))),
                          (''processedAt'', Some (JStr (toISOString now)))]\<rparr>
                in (Inr payment, d\<lparr>payments := payments d @ [payment]\<rparr>))))"

definition PaymentsService_processCardTerminalPayment ::
  "db \<Rightarrow> Date \<Rightarrow> string \<Rightarrow> CardTerminalPaymentDto \<Rightarrow> User \<Rightarrow> (error + Payment) \<times> db" where
  "PaymentsService_processCardTerminalPayment d now newId terminalPaymentDto currentUser =
     (if u_role currentUser \<notin> {SUPERADMIN, RESTAURANT_OWNER, EMPLOYEE}
      then (Inl (ForbiddenException ''Only restaurant staff can process terminal payments''), d)
      else
        (case find (\<lambda>x. o_id x = term_orderId terminalPaymentDto) (orders d) of
           None \<Rightarrow> (Inl (NotFoundException ''Order not found''), d)
         | Some order \<Rightarrow>
             if find (\<lambda>x. p_orderId x = o_id order) (payments d) \<noteq> None
             then (Inl (BadRequestException ''Order already has a payment''), d)
             else
               (let commissionAmount = Math_round (js_mul (o_totalAmount order) commissionRate);
                    netAmount = js_sub (o_totalAmount order) commissionAmount;
                    payment =
                      \<lparr>p_id = newId, p_orderId = term_orderId terminalPaymentDto,
                       p_amount = o_totalAmount order,
                       p_currency = ''USD'',
                       p_method = CARD_TERMINAL,
                       p_status = P_COMPLETED,
                       p_commission = commissionAmount,
                       p_commissionAmount = commissionAmount,
                       p_netAmount = netAmount,
                       p_provider = ''terminal'',
                       p_externalPaymentId = Some (term_terminalTransactionId terminalPaymentDto),
                       p_paymentUrl = None,
                       p_metadata = json_obj
                         [(''terminalId'', Some (JStr (term_terminalId terminalPaymentDto))),
                          (''terminalTransactionId'',
                             Some (JStr (term_terminalTransactionId terminalPaymentDto))),
                          (''cardLast4'', map_option JStr (term_cardLast4 terminalPaymentDto)),
                          (''cardType'', map_option JStr (term_cardType terminalPaymentDto)),
                          (''processedBy'', Some (JStr (u_name currentUser))),
                          (''processedAt'', Some (JStr (toISOString now)))]\<rparr>
                in (Inr payment, d\<lparr>payments := payments d @ [payment]\<rparr>))))"

text \<open>
  A webhook: \<open>wp_type\<close> is \<^verbatim>\<open>event.type\<close> (Stripe) or \<^verbatim>\<open>event.event\<close> (YooKassa),
  \<open>wp_object\<close> is \<^verbatim>\<open>event.data.object\<close> or \<^verbatim>\<open>event.object\<close>: its \<^verbatim>\<open>id\<close>, the object
  itself as JSON, and the message of \<^verbatim>\<open>last_payment_error\<close> or the reason of
  \<^verbatim>\<open>cancellation_details\<close> when present.
\<close>

record ProviderObject =
  po_id :: string
  po_json :: json
  po_failure :: "string option"

record WebhookPayload =
  wp_type :: string
  wp_object :: ProviderObject

record PaymentWebhookDto =
  wh_eventType :: string
  wh_provider :: string
  wh_payload :: WebhookPayload
  wh_signature :: string

definition handleStripePaymentSuccess :: "db \<Rightarrow> Date \<Rightarrow> ProviderObject \<Rightarrow> db" where
  "handleStripePaymentSuccess d now paymentIntent =
     (case find (\<lambda>x. p_externalPaymentId x = Some (po_id paymentIntent)) (payments d) of
        None \<Rightarrow> d
      | Some payment \<Rightarrow>
          update_payment (p_id payment)
            (payment\<lparr>p_status := P_COMPLETED,
                     p_metadata :=
                       spread_set ''completedAt'' (JStr (toISOString now))
                         (spread_set ''stripePaymentIntent'' (po_json paymentIntent)
                            (p_metadata payment))\<rparr>) d)"

definition handleStripePaymentFailed :: "db \<Rightarrow> Date \<Rightarrow> ProviderObject \<Rightarrow> db" where
  "handleStripePaymentFailed d now paymentIntent =
     (case find (\<lambda>x. p_externalPaymentId x = Some (po_id paymentIntent)) (payments d) of
        None \<Rightarrow> d
      | Some payment \<Rightarrow>
          update_payment (p_id payment)
            (payment\<lparr>p_status := P_FAILED,
                     p_metadata :=
                       spread_set ''failureReason''
                           (JStr (or_str (po_failure paymentIntent) ''Payment failed''))
                         (spread_set ''failedAt'' (JStr (toISOString now))
                            (spread_set ''stripePaymentIntent'' (po_json paymentIntent)
                               (p_metadata payment)))\<rparr>) d)"

definition handleYookassaPaymentSuccess :: "db \<Rightarrow> Date \<Rightarrow> ProviderObject \<Rightarrow> db" where
  "handleYookassaPaymentSuccess d now yookassaPayment =
     (case find (\<lambda>x. p_externalPaymentId x = Some (po_id yookassaPayment)) (payments d) of
        None \<Rightarrow> d
      | Some payment \<Rightarrow>
          update_payment (p_id payment)
            (payment\<lparr>p_status := P_COMPLETED,
                     p_metadata :=
                       spread_set ''completedAt'' (JStr (toISOString now))
                         (spread_set ''yookassaPayment'' (po_json yookassaPayment)
                            (p_metadata payment))\<rparr>) d)"

definition handleYookassaPaymentFailed :: "db \<Rightarrow> Date \<Rightarrow> ProviderObject \<Rightarrow> db" where
  "handleYookassaPaymentFailed d now yookassaPayment =
     (case find (\<lambda>x. p_externalPaymentId x = Some (po_id yookassaPayment)) (payments d) of
        None \<Rightarrow> d
      | Some payment \<Rightarrow>
          update_payment (p_id payment)
            (payment\<lparr>p_status := P_FAILED,
                     p_metadata :=
                       spread_set ''failureReason''
                           (JStr (or_str (po_failure yookassaPayment) ''Payment failed''))
                         (spread_set ''failedAt'' (JStr (toISOString now))
                            (spread_set ''yookassaPayment'' (po_json yookassaPayment)
                               (p_metadata payment)))\<rparr>) d)"

definition handleStripeWebhook :: "db \<Rightarrow> Date \<Rightarrow> PaymentWebhookDto \<Rightarrow> db" where
  "handleStripeWebhook d now webhookDto =
     (let event = wh_payload webhookDto
      in if wp_type event = ''payment_intent.succeeded''
         then handleStripePaymentSuccess d now (wp_object event)
         else if wp_type event = ''payment_intent.payment_failed''
         then handleStripePaymentFailed d now (wp_object event)
         else d)"

definition handleYookassaWebhook :: "db \<Rightarrow> Date \<Rightarrow> PaymentWebhookDto \<Rightarrow> db" where
  "handleYookassaWebhook d now webhookDto =
     (let event = wh_payload webhookDto
      in if wp_type event = ''payment.succeeded''
         then handleYookassaPaymentSuccess d now (wp_object event)
         else if wp_type event = ''payment.canceled''
         then handleYookassaPaymentFailed d now (wp_object event)
         else d)"

definition PaymentsService_handleWebhook ::
  "db \<Rightarrow> Date \<Rightarrow> PaymentWebhookDto \<Rightarrow> (error + unit) \<times> db" where
  "PaymentsService_handleWebhook d now webhookDto =
     (if wh_provider webhookDto = ''stripe'' then (Inr (), handleStripeWebhook d now webhookDto)
      else if wh_provider webhookDto = ''yookassa''
      then (Inr (), handleYookassaWebhook d now webhookDto)
      else (Inl (BadRequestException ''Unknown payment provider''), d))"

text \<open>Delivering a list of webhooks in turn, each with the clock reading of its delivery.\<close>

fun deliver :: "db \<Rightarrow> (Date \<times> PaymentWebhookDto) list \<Rightarrow> db" where
  "deliver d [] = d"
| "deliver d ((now, w) # ws) = deliver (snd (PaymentsService_handleWebhook d now w)) ws"

text \<open>
  \<^verbatim>\<open>refund\<close>: the provider is called only for a Stripe or YooKassa payment that has an
  external id, with the provider configured; whatever the \<^verbatim>\<open>try\<close> block throws becomes
  a \<^verbatim>\<open>BadRequestException\<close>.
\<close>

definition refund_completed ::
  "Providers \<Rightarrow> db \<Rightarrow> Date \<Rightarrow> string \<Rightarrow> RefundPaymentDto \<Rightarrow> User \<Rightarrow> Payment
     \<Rightarrow> (error + Payment) \<times> db" where
  "refund_completed env d now i refundDto currentUser payment =
     (let refundAmount = or_num (rd_amount refundDto) (p_amount payment);
          call =
            (case p_method payment of
               STRIPE \<Rightarrow>
                 if stripeConfigured env \<and> truthy_str (p_externalPaymentId payment)
                 then map_sum id Some (stripe_refunds_create env)
                 else Inr None
             | YOOKASSA \<Rightarrow>
                 if yookassaShopId env \<noteq> [] \<and> yookassaSecretKey env \<noteq> []
                    \<and> truthy_str (p_externalPaymentId payment)
                 then map_sum id Some (yookassa_post_refunds env)
                 else Inr None
             | CASH \<Rightarrow> Inr None
             | CARD_TERMINAL \<Rightarrow> Inr None)
      in case call of
           Inl message \<Rightarrow> (Inl (BadRequestException (''Refund failed: '' @ message)), d)
         | Inr externalRefundId \<Rightarrow>
             (let refundedPayment = payment
                    \<lparr>p_status := P_REFUNDED,
                     p_metadata :=
                       spread_set ''refund''
                         (JObj (json_obj
                            [(''amount'', Some (JNum refundAmount)),
                             (''reason'', Some (JStr (rd_reason refundDto))),
                             (''externalRefundId'', map_option JStr externalRefundId),
                             (''refundedBy'', Some (JStr (u_name currentUser))),
                             (''refundedAt'', Some (JStr (toISOString now)))]))
                         (p_metadata payment)\<rparr>
              in (Inr refundedPayment, update_payment i refundedPayment d)))"

definition payment_restaurant :: "db \<Rightarrow> Payment \<Rightarrow> Restaurant option" where
  "payment_restaurant d payment =
     (case find (\<lambda>x. o_id x = p_orderId payment) (orders d) of
        None \<Rightarrow> None
      | Some order \<Rightarrow> find (\<lambda>r. r_id r = o_restaurantId order) (restaurants d))"

definition PaymentsService_refund ::
  "Providers \<Rightarrow> db \<Rightarrow> Date \<Rightarrow> string \<Rightarrow> RefundPaymentDto \<Rightarrow> User \<Rightarrow> (error + Payment) \<times> db" where
  "PaymentsService_refund env d now i refundDto currentUser =
     (case find (\<lambda>x. p_id x = i) (payments d) of
        None \<Rightarrow> (Inl (NotFoundException (''Payment with ID '' @ i @ '' not found'')), d)
      | Some payment \<Rightarrow>
          if p_status payment \<noteq> P_COMPLETED
          then (Inl (BadRequestException ''Can only refund completed payments''), d)
          else if u_role currentUser = RESTAURANT_OWNER then
            (case payment_restaurant d payment of
               None \<Rightarrow> (Inl (null_read ''ownerId''), d)
             | Some restaurant \<Rightarrow>
                 if r_ownerId restaurant \<noteq> u_id currentUser
                 then (Inl (ForbiddenException
                         ''You can only refund payments from your own restaurants''), d)
                 else refund_completed env d now i refundDto currentUser payment)
          else refund_completed env d now i refundDto currentUser payment)"

section \<open>EmployeesService\<close>

record CreateShiftDto =
  csd_employeeId :: string
  csd_startTime :: Date
  csd_endTime :: Date
  csd_breakDuration :: "number option"
  csd_notes :: "string option"

record ClockOutDto =
  co_shiftId :: string
  co_notes :: "string option"

definition EmployeesService_findOne :: "db \<Rightarrow> string \<Rightarrow> User \<Rightarrow> error + Employee" where
  "EmployeesService_findOne d i currentUser =
     (case find (\<lambda>x. e_id x = i) (employees d) of
        None \<Rightarrow> Inl (NotFoundException (''Employee with ID '' @ i @ '' not found''))
      | Some employee \<Rightarrow>
          if u_role currentUser = RESTAURANT_OWNER then
            (case find (\<lambda>r. r_id r = e_restaurantId employee) (restaurants d) of
               None \<Rightarrow> Inl (null_read ''ownerId'')
             | Some restaurant \<Rightarrow>
                 if r_ownerId restaurant \<noteq> u_id currentUser
                 then Inl (ForbiddenException
                        ''You can only access employees from your own restaurants'')
                 else Inr employee)
          else if u_role currentUser = EMPLOYEE \<and> e_userId employee \<noteq> Some (u_id currentUser)
          then Inl (ForbiddenException ''You can only access your own employee profile'')
          else Inr employee)"

text \<open>
  The \<^verbatim>\<open>WHERE\<close> clause of the raw overlap query of \<^verbatim>\<open>createShift\<close>, for one stored shift
  and the requested \<open>startTime\<close>, \<open>endTime\<close>.
\<close>

definition overlap_where :: "string \<Rightarrow> Date \<Rightarrow> Date \<Rightarrow> Shift \<Rightarrow> bool" where
  "overlap_where employeeId startTime endTime x =
     (s_employeeId x = employeeId
      \<and> s_status x \<in> {S_SCHEDULED, S_ACTIVE}
      \<and> ((s_startTime x \<le> startTime \<and> s_endTime x > startTime)
         \<or> (s_startTime x < endTime \<and> s_endTime x \<ge> endTime)
         \<or> (s_startTime x \<ge> startTime \<and> s_endTime x \<le> endTime)))"

text \<open>
  \<^verbatim>\<open>createShift\<close> runs in two stages as well. The first one reads the employee, compares
  the two times and runs the overlap query (\<open>createShift_check\<close>); the second one is
  \<^verbatim>\<open>prisma.shift.create\<close> (\<open>createShift_insert\<close>). Neither a transaction nor a constraint
  ties the insert to the query's answer; \<open>EmployeesService_createShift\<close> is the run in
  which no other request comes in between.
\<close>

definition createShift_check :: "db \<Rightarrow> CreateShiftDto \<Rightarrow> User \<Rightarrow> error + Employee" where
  "createShift_check d createShiftDto currentUser =
     (case EmployeesService_findOne d (csd_employeeId createShiftDto) currentUser of
        Inl e \<Rightarrow> Inl e
      | Inr employee \<Rightarrow>
          (let startTime = csd_startTime createShiftDto;
               endTime = csd_endTime createShiftDto
           in if startTime \<ge> endTime
              then Inl (BadRequestException ''Start time must be before end time'')
              else
                (let overlappingShift =
                       take 1 (filter (overlap_where (csd_employeeId createShiftDto)
                                         startTime endTime) (shifts d))
                 in if length overlappingShift > 0
                    then Inl (BadRequestException ''Employee has overlapping shift scheduled'')
                    else Inr employee)))"

definition createShift_insert :: "db \<Rightarrow> string \<Rightarrow> CreateShiftDto \<Rightarrow> Shift \<times> db" where
  "createShift_insert d newId createShiftDto =
     (let shift =
            \<lparr>s_id = newId, s_employeeId = csd_employeeId createShiftDto,
             s_startTime = csd_startTime createShiftDto, s_endTime = csd_endTime createShiftDto,
             s_actualStartTime = None, s_actualEndTime = None,
             s_breakDuration = Some (or_num (csd_breakDuration createShiftDto) 0),
             s_notes = csd_notes createShiftDto,
             s_status = S_SCHEDULED\<rparr>
      in (shift, d\<lparr>shifts := shifts d @ [shift]\<rparr>))"

definition EmployeesService_createShift ::
  "db \<Rightarrow> string \<Rightarrow> CreateShiftDto \<Rightarrow> User \<Rightarrow> (error + Shift) \<times> db" where
  "EmployeesService_createShift d newId createShiftDto currentUser =
     (case createShift_check d createShiftDto currentUser of
        Inl e \<Rightarrow> (Inl e, d)
      | Inr employee \<Rightarrow>
          (case createShift_insert d newId createShiftDto of
             (shift, d') \<Rightarrow> (Inr shift, d')))"

text \<open>\<^verbatim>\<open>notes ? `${notes}\n${line}` : line\<close>\<close>

definition append_note :: "string option \<Rightarrow> string \<Rightarrow> string" where
  "append_note notes line =
     (case notes of
        None \<Rightarrow> line
      | Some s \<Rightarrow> if s = [] then line else s @ [CHR 0x0A] @ line)"

definition update_shift :: "string \<Rightarrow> Shift \<Rightarrow> db \<Rightarrow> db" where
  "update_shift i shift' d = d\<lparr>shifts := map (\<lambda>x. if s_id x = i then shift' else x) (shifts d)\<rparr>"

record ClockInDto =
  ci_employeeId :: string
  ci_notes :: "string option"

text \<open>
  \<^verbatim>\<open>clockIn\<close>, run without another request in between: an employee without an Active
  shift either activates the first Scheduled shift that starts on the server's local
  day, or gets a new Active shift from now to \<^verbatim>\<open>setHours(23, 59, 59, 999)\<close> of that day,
  the millisecond before the next local midnight (a day without a clock change). The
  \<^verbatim>\<open>data\<close> of the new row names no \<^verbatim>\<open>breakDuration\<close>, so the model leaves the column empty;
  every reader of the column applies \<^verbatim>\<open>|| 0\<close> to it.
\<close>

definition EmployeesService_clockIn ::
  "db \<Rightarrow> int \<Rightarrow> Date \<Rightarrow> string \<Rightarrow> ClockInDto \<Rightarrow> User \<Rightarrow> (error + Shift) \<times> db" where
  "EmployeesService_clockIn d tzOffset now newId clockInDto currentUser =
     (case EmployeesService_findOne d (ci_employeeId clockInDto) currentUser of
        Inl e \<Rightarrow> (Inl e, d)
      | Inr employee \<Rightarrow>
          if find (\<lambda>x. s_employeeId x = ci_employeeId clockInDto \<and> s_status x = S_ACTIVE)
               (shifts d) \<noteq> None
          then (Inl (BadRequestException ''Employee is already clocked in''), d)
          else
            (let todayStart = localMidnight tzOffset now 0;
                 todayEnd = localMidnight tzOffset now 1
             in case find (\<lambda>x. s_employeeId x = ci_employeeId clockInDto
                               \<and> s_status x = S_SCHEDULED
                               \<and> todayStart \<le> s_startTime x \<and> s_startTime x < todayEnd)
                       (shifts d) of
                  Some shift \<Rightarrow>
                    (let updated = shift
                           \<lparr>s_status := S_ACTIVE,
                            s_actualStartTime := Some now,
                            s_notes := Some
                              (append_note (s_notes shift)
                                 (''Clocked in: '' @ or_str (ci_notes clockInDto) ''No notes''))\<rparr>
                     in (Inr updated, update_shift (s_id shift) updated d))
                | None \<Rightarrow>
                    (let endOfDay = localMidnight tzOffset now 1 - 1;
                         shift =
                           \<lparr>s_id = newId, s_employeeId = ci_employeeId clockInDto,
                            s_startTime = now, s_endTime = endOfDay,
                            s_actualStartTime = Some now, s_actualEndTime = None,
                            s_breakDuration = None,
                            s_notes = Some (''Unscheduled shift. Clocked in: ''
                                            @ or_str (ci_notes clockInDto) ''No notes''),
                            s_status = S_ACTIVE\<rparr>
                     in (Inr shift, d\<lparr>shifts := shifts d @ [shift]\<rparr>))))"

text \<open>What \<^verbatim>\<open>clockOut\<close> returns: the completed shift and the two calculated fields.\<close>

record ClockOutResult =
  cor_shift :: Shift
  cor_hoursWorked :: number
  cor_calculatedPay :: "number option"

definition adjustedHours :: "Date \<Rightarrow> Shift \<Rightarrow> number" where
  "adjustedHours now shift =
     (let startTime = (case s_actualStartTime shift of Some t \<Rightarrow> t | None \<Rightarrow> s_startTime shift);
          hoursWorked = js_div (js_sub (of_int now) (of_int startTime)) 3600000
      in Math_max 0 (js_sub hoursWorked (js_div (or_num (s_breakDuration shift) 0) 60)))"

definition calculatedPay :: "number option \<Rightarrow> number \<Rightarrow> number option" where
  "calculatedPay hourlyWage hours =
     (case hourlyWage of
        None \<Rightarrow> None
      | Some w \<Rightarrow> if w = 0 then None else Some (js_mul hours (js_div w 100)))"

definition clockOut_active ::
  "db \<Rightarrow> Date \<Rightarrow> ClockOutDto \<Rightarrow> Shift \<Rightarrow> Employee \<Rightarrow> (error + ClockOutResult) \<times> db" where
  "clockOut_active d now clockOutDto shift employee =
     (if s_status shift \<noteq> S_ACTIVE
      then (Inl (BadRequestException ''Can only clock out from active shifts''), d)
      else
        (let hours = adjustedHours now shift;
             completedShift = shift
               \<lparr>s_status := S_COMPLETED,
                s_actualEndTime := Some now,
                s_notes := Some
                  (append_note (s_notes shift)
                     (''Clocked out: '' @ or_str (co_notes clockOutDto) ''No notes''))\<rparr>
         in (Inr \<lparr>cor_shift = completedShift, cor_hoursWorked = hours,
                  cor_calculatedPay = calculatedPay (e_hourlyWage employee) hours\<rparr>,
             update_shift (co_shiftId clockOutDto) completedShift d)))"

definition EmployeesService_clockOut ::
  "db \<Rightarrow> Date \<Rightarrow> ClockOutDto \<Rightarrow> User \<Rightarrow> (error + ClockOutResult) \<times> db" where
  "EmployeesService_clockOut d now clockOutDto currentUser =
     (case find (\<lambda>x. s_id x = co_shiftId clockOutDto) (shifts d) of
        None \<Rightarrow> (Inl (NotFoundException ''Shift not found''), d)
      | Some shift \<Rightarrow>
          (case find (\<lambda>x. e_id x = s_employeeId shift) (employees d) of
             None \<Rightarrow> (Inl (null_read ''userId''), d)
           | Some employee \<Rightarrow>
               if u_role currentUser = EMPLOYEE \<and> e_userId employee \<noteq> Some (u_id currentUser)
               then (Inl (ForbiddenException ''You can only clock out from your own shifts''), d)
               else if u_role currentUser = RESTAURANT_OWNER then
                 (case find (\<lambda>r. r_id r = e_restaurantId employee) (restaurants d) of
                    None \<Rightarrow>
                      (Inl (null_read ''ownerId''), d)
                  | Some restaurant \<Rightarrow>
                      if r_ownerId restaurant \<noteq> u_id currentUser
                      then (Inl (ForbiddenException
                              ''You can only manage shifts in your own restaurants''), d)
                      else clockOut_active d now clockOutDto shift employee)
               else clockOut_active d now clockOutDto shift employee))"

section \<open>Auxiliary notions\<close>

text \<open>A payment without its metadata: identity, order, money fields, status and provider reference.\<close>

definition payment_core :: "Payment \<Rightarrow> Payment" where
  "payment_core p = p\<lparr>p_metadata := []\<rparr>"

text \<open>
  The shape shared by the four webhook handlers: look the payment up by its external
  id and replace the row by an updated copy.
\<close>

definition settle :: "(Payment \<Rightarrow> Payment) \<Rightarrow> string \<Rightarrow> db \<Rightarrow> db" where
  "settle upd ext d =
     (case find (\<lambda>x. p_externalPaymentId x = Some ext) (payments d) of
        None \<Rightarrow> d
      | Some payment \<Rightarrow> update_payment (p_id payment) (upd payment) d)"

section \<open>A food court used in the examples\<close>

definition ex_restaurant :: Restaurant where
  "ex_restaurant = \<lparr>r_id = ''rest-1'', r_name = ''Pizza Point'', r_ownerId = ''owner-1'',
     r_status = ''ACTIVE'', r_foodcourtId = ''fc-1''\<rparr>"

definition ex_order :: "OrderStatus \<Rightarrow> Order" where
  "ex_order st = \<lparr>o_id = ''order-1'', o_orderNumber = ''20240101-001'', o_status = st,
     o_customerName = ''Ann'', o_customerPhone = ''+10000000001'', o_totalAmount = 1500,
     o_deliveryType = ''DINE_IN'', o_specialInstructions = None, o_paymentMethod = None,
     o_estimatedTime = None, o_restaurantId = ''rest-1'', o_tableId = None,
     o_customerId = Some ''cust-1'', o_createdAt = 1704103200000, o_updatedAt = 1704103200000\<rparr>"

definition ex_db :: "OrderStatus \<Rightarrow> Payment list \<Rightarrow> db" where
  "ex_db st ps = \<lparr>restaurants = [ex_restaurant], tables = [], products = [],
     orders = [ex_order st], orderItems = [], payments = ps, employees = [], shifts = []\<rparr>"

definition ex_owner :: User where
  "ex_owner = \<lparr>u_id = ''owner-1'', u_name = ''Olga'', u_role = RESTAURANT_OWNER\<rparr>"

definition ex_customer :: User where
  "ex_customer = \<lparr>u_id = ''cust-1'', u_name = ''Ann'', u_role = CUSTOMER\<rparr>"

definition ex_env :: Providers where
  "ex_env = \<lparr>stripeConfigured = True, yookassaShopId = ''shop-1'', yookassaSecretKey = ''key-1'',
     stripe_paymentIntents_create = Inr \<lparr>spi_id = ''pi_1'', spi_client_secret = ''cs_1''\<rparr>,
     yookassa_post_payments = Inr \<lparr>yk_id = ''yk_1'', yk_confirmation_url = ''https://yk/1'',
        yk_status = ''pending''\<rparr>,
     stripe_refunds_create = Inr ''re_1'',
     yookassa_post_refunds = Inr ''ykr_1''\<rparr>"

definition ex_createPaymentDto :: "number \<Rightarrow> PaymentMethod \<Rightarrow> CreatePaymentDto" where
  "ex_createPaymentDto amount method = \<lparr>cpd_orderId = ''order-1'', cpd_amount = amount,
     cpd_method = method, cpd_currency = None, cpd_customerEmail = None,
     cpd_description = None, cpd_returnUrl = None, cpd_cancelUrl = None\<rparr>"

definition ex_payment_1099 :: Payment where
  "ex_payment_1099 = \<lparr>p_id = ''pay-1'', p_orderId = ''order-1'', p_amount = 1099,
     p_currency = ''USD'', p_method = STRIPE, p_status = P_PENDING,
     p_commission = 55, p_commissionAmount = 55, p_netAmount = 1044,
     p_provider = ''stripe'', p_externalPaymentId = Some ''pi_1'',
     p_paymentUrl = Some ''https://checkout.stripe.com/pay/cs_1'',
     p_metadata = [(''stripePaymentIntentId'', JStr ''pi_1''), (''clientSecret'', JStr ''cs_1'')]\<rparr>"

definition ex_employee_user :: User where
  "ex_employee_user = \<lparr>u_id = ''user-emp-1'', u_name = ''Egor'', u_role = EMPLOYEE\<rparr>"

definition ex_cashDto :: "number \<Rightarrow> CashPaymentDto" where
  "ex_cashDto received = \<lparr>cash_orderId = ''order-1'', cash_amountReceived = received,
     cash_changeGiven = None, cash_processedBy = None\<rparr>"

definition ex_terminalDto :: CardTerminalPaymentDto where
  "ex_terminalDto = \<lparr>term_orderId = ''order-1'', term_terminalTransactionId = ''tx-77'',
     term_terminalId = ''term-3'', term_cardLast4 = Some ''4242'', term_cardType = None\<rparr>"

definition ex_cash_payment :: "number \<Rightarrow> Payment" where
  "ex_cash_payment received = \<lparr>p_id = ''pay-2'', p_orderId = ''order-1'', p_amount = 1500,
     p_currency = ''USD'', p_method = CASH, p_status = P_COMPLETED,
     p_commission = 75, p_commissionAmount = 75, p_netAmount = 1425,
     p_provider = ''cash'', p_externalPaymentId = None, p_paymentUrl = None,
     p_metadata = [(''amountReceived'', JNum received), (''changeGiven'', JNum 0),
        (''processedBy'', JStr ''Egor''), (''processedAt'', JStr ''2024-01-01T11:00:00.000Z'')]\<rparr>"

definition ex_terminal_payment :: Payment where
  "ex_terminal_payment = \<lparr>p_id = ''pay-2'', p_orderId = ''order-1'', p_amount = 1500,
     p_currency = ''USD'', p_method = CARD_TERMINAL, p_status = P_COMPLETED,
     p_commission = 75, p_commissionAmount = 75, p_netAmount = 1425,
     p_provider = ''terminal'', p_externalPaymentId = Some ''tx-77'', p_paymentUrl = None,
     p_metadata = [(''terminalId'', JStr ''term-3''), (''terminalTransactionId'', JStr ''tx-77''),
        (''cardLast4'', JStr ''4242''), (''processedBy'', JStr ''Egor''),
        (''processedAt'', JStr ''2024-01-01T11:00:00.000Z'')]\<rparr>"

definition ex_payment :: "PaymentStatus \<Rightarrow> Payment" where
  "ex_payment st = \<lparr>p_id = ''pay-1'', p_orderId = ''order-1'', p_amount = 1500,
     p_currency = ''USD'', p_method = STRIPE, p_status = st,
     p_commission = 75, p_commissionAmount = 75, p_netAmount = 1425,
     p_provider = ''stripe'', p_externalPaymentId = Some ''pi_1'',
     p_paymentUrl = Some ''https://checkout.stripe.com/pay/cs_1'',
     p_metadata = [(''stripePaymentIntentId'', JStr ''pi_1''), (''clientSecret'', JStr ''cs_1'')]\<rparr>"

definition ex_cancelDto :: CancelOrderDto where
  "ex_cancelDto = \<lparr>cd_reason = ''kitchen closed'', cd_refund = Some True\<rparr>"

definition ex_cancelled_order :: Order where
  "ex_cancelled_order = (ex_order CANCELLED)
     \<lparr>o_specialInstructions := Some ''CANCELLED: kitchen closed'',
      o_updatedAt := 1704106800000\<rparr>"

definition ex_refundDto :: RefundPaymentDto where
  "ex_refundDto = \<lparr>rd_amount = Some 1500, rd_reason = ''customer request''\<rparr>"


definition ex_succeeded :: PaymentWebhookDto where
  "ex_succeeded = \<lparr>wh_eventType = ''payment_intent.succeeded'', wh_provider = ''stripe'',
     wh_payload = \<lparr>wp_type = ''payment_intent.succeeded'',
       wp_object = \<lparr>po_id = ''pi_1'', po_json = JObj [(''id'', JStr ''pi_1'')],
         po_failure = None\<rparr>\<rparr>,
     wh_signature = ''sig''\<rparr>"

definition ex_settled_payment :: "string \<Rightarrow> Payment" where
  "ex_settled_payment completedAt = (ex_payment P_COMPLETED)
     \<lparr>p_metadata := [(''stripePaymentIntentId'', JStr ''pi_1''), (''clientSecret'', JStr ''cs_1''),
        (''stripePaymentIntent'', JObj [(''id'', JStr ''pi_1'')]),
        (''completedAt'', JStr completedAt)]\<rparr>"

definition ex_product :: Product where
  "ex_product = \<lparr>pr_id = ''prod-1'', pr_name = ''Margherita'', pr_price = 1299,
     pr_isAvailable = True, pr_categoryRestaurantId = ''rest-1'', pr_variants = None\<rparr>"

definition ex_shop :: db where
  "ex_shop = \<lparr>restaurants = [ex_restaurant], tables = [], products = [ex_product],
     orders = [], orderItems = [], payments = [], employees = [], shifts = []\<rparr>"

definition ex_createOrderDto :: CreateOrderDto where
  "ex_createOrderDto = \<lparr>cod_restaurantId = ''rest-1'', cod_tableId = None,
     cod_items = [\<lparr>oid_productId = ''prod-1'', oid_variant = None, oid_quantity = 2,
        oid_unitPrice = 1299, oid_specialInstructions = None\<rparr>],
     cod_customerName = ''Ann'', cod_customerPhone = ''+10000000001'',
     cod_specialInstructions = None, cod_deliveryType = None, cod_paymentMethod = None\<rparr>"

definition ex_employee :: Employee where
  "ex_employee = \<lparr>e_id = ''emp-1'', e_name = ''Egor'', e_userId = Some ''user-emp-1'',
     e_restaurantId = ''rest-1'', e_hourlyWage = Some 1550\<rparr>"

definition ex_shift :: "Date \<Rightarrow> Date \<Rightarrow> ShiftStatus \<Rightarrow> Shift" where
  "ex_shift start end st = \<lparr>s_id = ''shift-1'', s_employeeId = ''emp-1'',
     s_startTime = start, s_endTime = end, s_actualStartTime = None, s_actualEndTime = None,
     s_breakDuration = Some 0, s_notes = None, s_status = st\<rparr>"

definition ex_staff :: "Shift list \<Rightarrow> db" where
  "ex_staff ss = \<lparr>restaurants = [ex_restaurant], tables = [], products = [],
     orders = [], orderItems = [], payments = [], employees = [ex_employee], shifts = ss\<rparr>"

definition ex_createShiftDto :: "Date \<Rightarrow> Date \<Rightarrow> CreateShiftDto" where
  "ex_createShiftDto start end = \<lparr>csd_employeeId = ''emp-1'', csd_startTime = start,
     csd_endTime = end, csd_breakDuration = None, csd_notes = None\<rparr>"

definition ex_active_shift :: Shift where
  "ex_active_shift = (ex_shift 1704189600000 1704218400000 S_ACTIVE)
     \<lparr>s_actualStartTime := Some 1704189600000\<rparr>"

definition ex_clockOutDto :: ClockOutDto where
  "ex_clockOutDto = \<lparr>co_shiftId = ''shift-1'', co_notes = None\<rparr>"

definition ex_completed_shift :: Shift where
  "ex_completed_shift = ex_active_shift
     \<lparr>s_status := S_COMPLETED, s_actualEndTime := Some 1704193200000,
      s_notes := Some ''Clocked out: No notes''\<rparr>"

definition ex_clockOutResult :: ClockOutResult where
  "ex_clockOutResult = \<lparr>cor_shift = ex_completed_shift, cor_hoursWorked = 1,
     cor_calculatedPay = Some (31 / 2)\<rparr>"

definition ex_statusDto :: "OrderStatus \<Rightarrow> UpdateOrderStatusDto" where
  "ex_statusDto st = \<lparr>usd_status = st, usd_note = None, usd_estimatedTime = None\<rparr>"

definition ex_unscheduled_shift :: Shift where
  "ex_unscheduled_shift = \<lparr>s_id = ''shift-1'', s_employeeId = ''emp-1'',
     s_startTime = 1704239999999, s_endTime = 1704239999999,
     s_actualStartTime = Some 1704239999999, s_actualEndTime = None,
     s_breakDuration = None, s_notes = Some ''Unscheduled shift. Clocked in: No notes'',
     s_status = S_ACTIVE\<rparr>"

definition ex_shift_a :: Shift where
  "ex_shift_a = (ex_shift 1704189600000 1704193200000 S_SCHEDULED)\<lparr>s_id := ''shift-a''\<rparr>"

definition ex_shift_b :: Shift where
  "ex_shift_b = (ex_shift 1704191400000 1704195000000 S_SCHEDULED)\<lparr>s_id := ''shift-b''\<rparr>"

definition ex_failed :: PaymentWebhookDto where
  "ex_failed = \<lparr>wh_eventType = ''payment_intent.payment_failed'', wh_provider = ''stripe'',
     wh_payload = \<lparr>wp_type = ''payment_intent.payment_failed'',
       wp_object = \<lparr>po_id = ''pi_1'', po_json = JObj [(''id'', JStr ''pi_1'')],
         po_failure = Some ''card declined''\<rparr>\<rparr>,
     wh_signature = ''sig''\<rparr>"

section \<open>Rounding to binary64\<close>

text \<open>
  The exponent found by \<open>ilog2\<close> brackets its argument, so \<open>fl\<close> moves a positive
  number to one of the two neighbouring multiples of the unit in the last place; numbers
  that are such a multiple, all integers below \<open>2^53\<close> among them, are not moved.
\<close>

lemma ilog2_bounds:
  assumes "0 < x"
  shows "2 powi (ilog2 x) \<le> x \<and> x < 2 powi (ilog2 x + 1)"
proof (cases "1 \<le> x")
  case True
  define n where "n = \<lfloor>x\<rfloor>"
  have n1: "1 \<le> n" using True by (simp add: n_def le_floor_iff)
  then have n0: "0 < n" by simp
  from bitlen_bounds [OF n0] have b: "2 ^ nat (bitlen n - 1) \<le> n" "n < 2 ^ nat (bitlen n)"
    by simp_all
  have bl: "1 \<le> bitlen n" using n0 by (simp add: bitlen_alt_def)
  have e: "ilog2 x = bitlen n - 1" using True by (simp add: ilog2_def n_def)
  have "(2::rat) powi (bitlen n - 1) = 2 ^ nat (bitlen n - 1)"
    using bl by (simp add: power_int_def)
  also have "\<dots> = of_int (2 ^ nat (bitlen n - 1))" by simp
  also have "\<dots> \<le> of_int n" using b(1) by (simp only: of_int_le_iff)
  also have "\<dots> \<le> x" by (simp add: n_def)
  finally have lo: "2 powi (ilog2 x) \<le> x" by (simp add: e)
  have "x < of_int (n + 1)" using floor_correct [of x] by (simp add: n_def)
  also have "\<dots> \<le> of_int (2 ^ nat (bitlen n))" using b(2) by (simp only: of_int_le_iff)
  also have "\<dots> = (2::rat) powi (bitlen n)" using bl by (simp add: power_int_def)
  finally have "x < 2 powi (ilog2 x + 1)" by (simp add: e)
  with lo show ?thesis by simp
next
  case False
  then have x1: "x < 1" by simp
  define n where "n = \<lfloor>1 / x\<rfloor>"
  define k where "k = bitlen n - 1"
  have "1 \<le> 1 / x" using assms x1 by (simp add: field_simps)
  then have n1: "1 \<le> n" by (simp add: n_def le_floor_iff)
  then have n0: "0 < n" by simp
  from bitlen_bounds [OF n0] have b: "2 ^ nat k \<le> n" "n < 2 ^ nat (bitlen n)"
    by (simp_all add: k_def)
  have bl: "1 \<le> bitlen n" using n0 by (simp add: bitlen_alt_def)
  then have k0: "0 \<le> k" by (simp add: k_def)
  have "(2::rat) ^ nat k = of_int (2 ^ nat k)" by simp
  also have "\<dots> \<le> of_int n" using b(1) by (simp only: of_int_le_iff)
  also have "\<dots> \<le> 1 / x" by (simp add: n_def)
  finally have up: "x * 2 ^ nat k \<le> 1" using assms by (simp add: field_simps)
  have "1 / x < of_int (n + 1)" using floor_correct [of "1 / x"] by (simp add: n_def)
  also have "\<dots> \<le> of_int (2 ^ nat (bitlen n))" using b(2) by (simp only: of_int_le_iff)
  also have "\<dots> = (2::rat) ^ nat (k + 1)" by (simp add: k_def)
  also have "\<dots> = 2 * 2 ^ nat k" using k0 by (simp add: nat_add_distrib)
  finally have lo: "1 < x * (2 * 2 ^ nat k)" using assms by (simp add: field_simps)
  have pk: "(2::rat) powi (- k) = 1 / 2 ^ nat k" using k0
    by (simp add: power_int_def field_simps)
  have pk1: "(2::rat) powi (- k - 1) = 1 / (2 * 2 ^ nat k)" using k0
    by (simp add: power_int_def field_simps nat_add_distrib)
  have "(2::rat) powi (- k + 1) = 2 powi (- k) * 2 powi 1"
    by (rule power_int_add) simp
  then have pk2: "(2::rat) powi (- k + 1) = 2 / 2 ^ nat k"
    by (simp add: pk)
  show ?thesis
  proof (cases "x * 2 ^ nat k = 1")
    case True
    then have e: "ilog2 x = - k" using x1 by (simp add: ilog2_def n_def k_def Let_def)
    from True have "x = 1 / 2 ^ nat k" by (simp add: field_simps)
    then show ?thesis unfolding e pk pk2 by (simp add: divide_strict_right_mono)
  next
    case ne: False
    then have e: "ilog2 x = - k - 1" using x1 by (simp add: ilog2_def n_def k_def Let_def)
    from ne up have "x * 2 ^ nat k < 1" by simp
    then have "x < 1 / 2 ^ nat k" by (simp add: field_simps)
    moreover from lo have "1 / (2 * 2 ^ nat k) < x" by (simp add: field_simps)
    ultimately show ?thesis unfolding e pk1 using pk by simp
  qed
qed

lemma round_half_even_bounds: "\<lfloor>q\<rfloor> \<le> round_half_even q \<and> round_half_even q \<le> \<lceil>q\<rceil>"
proof -
  have "q - of_int \<lfloor>q\<rfloor> \<noteq> 0 \<Longrightarrow> \<lceil>q\<rceil> = \<lfloor>q\<rfloor> + 1"
    by (metis ceiling_altdef eq_iff_diff_eq_0 )
  then show ?thesis
    by (auto simp add: round_half_even_def Let_def)
qed

lemma round_half_even_of_int [simp]: "round_half_even (of_int m) = m"
  by (simp add: round_half_even_def)

lemma fl_pos:
  "0 < x \<Longrightarrow> fl x = of_int (round_half_even (x / 2 powi (ilog2 x - 52))) * 2 powi (ilog2 x - 52)"
  by (simp add: fl_def Let_def)

lemma fl_minus: "fl (- x) = - fl x"
  by (simp add: fl_def Let_def)

lemma fl_pos_bounds:
  assumes "0 < x"
  shows "of_int \<lfloor>x / 2 powi (ilog2 x - 52)\<rfloor> * 2 powi (ilog2 x - 52) \<le> fl x
       \<and> fl x \<le> of_int \<lceil>x / 2 powi (ilog2 x - 52)\<rceil> * 2 powi (ilog2 x - 52)"
proof -
  let ?u = "(2::rat) powi (ilog2 x - 52)"
  have u: "0 < ?u" by simp
  from round_half_even_bounds [of "x / ?u"]
  have "(of_int \<lfloor>x / ?u\<rfloor> :: rat) \<le> of_int (round_half_even (x / ?u))"
    and "(of_int (round_half_even (x / ?u)) :: rat) \<le> of_int \<lceil>x / ?u\<rceil>"
    by (simp_all only: of_int_le_iff)
  with u show ?thesis
    unfolding fl_pos [OF assms] by (simp add: mult_right_mono)
qed

lemma ilog2_less:
  assumes "0 < x" and "x < 2 powi n"
  shows "ilog2 x < n"
proof (rule ccontr)
  assume "\<not> ilog2 x < n"
  then have "n \<le> ilog2 x" by simp
  then have "(2::rat) powi n \<le> 2 powi (ilog2 x)" by (rule power_int_increasing) simp
  with ilog2_bounds [OF assms(1)] assms(2) show False by simp
qed

lemma fl_exact:
  assumes "0 < x" and "x / 2 powi (ilog2 x - 52) = of_int m"
  shows "fl x = x"
proof -
  have "fl x = of_int m * 2 powi (ilog2 x - 52)"
    unfolding fl_pos [OF assms(1)] assms(2) by simp
  also have "\<dots> = x" unfolding assms(2) [symmetric] by simp
  finally show ?thesis .
qed

lemma fl_of_int:
  assumes "\<bar>n\<bar> < 2 ^ 53"
  shows "fl (of_int n) = of_int n"
proof -
  have pos: "fl (of_int k) = of_int k" if k: "0 < k" "k < 2 ^ 53" for k :: int
  proof -
    let ?x = "of_int k :: rat"
    have x0: "0 < ?x" using k by simp
    have "?x < of_int (2 ^ 53)" using k(2) by (simp only: of_int_less_iff)
    then have "?x < 2 powi 53" by simp
    from ilog2_less [OF x0 this] have e: "0 \<le> 52 - ilog2 ?x" by simp
    have "(2::rat) powi (ilog2 ?x - 52) = 2 powi (- (52 - ilog2 ?x))" by simp
    also have "\<dots> = 1 / 2 powi (52 - ilog2 ?x)" by (rule power_int_minus_divide)
    also have "\<dots> = 1 / 2 ^ nat (52 - ilog2 ?x)" using e by (simp add: power_int_nonneg_exp)
    finally have "?x / 2 powi (ilog2 ?x - 52) = of_int (k * 2 ^ nat (52 - ilog2 ?x))"
      by simp
    with x0 show ?thesis by (rule fl_exact)
  qed
  consider "n = 0" | "0 < n" | "n < 0" by linarith
  then show ?thesis
  proof cases
    case 1
    then show ?thesis by (simp add: fl_def)
  next
    case 2
    with assms show ?thesis by (simp add: pos)
  next
    case 3
    with assms have "fl (of_int (- n)) = of_int (- n)" by (intro pos) simp_all
    then show ?thesis using fl_minus [of "of_int n"] by simp
  qed
qed

lemma commission_of_int:
  assumes "0 \<le> a" and "a < 2 ^ 50"
  shows "Math_round (js_mul (of_int a) commissionRate) = of_int ((a + 10) div 20)"
proof (cases "a = 0")
  case True
  have "\<lfloor>(1::rat) / 2\<rfloor> = 0" by (rule floor_unique) simp_all
  with True show ?thesis by (simp add: Math_round_def js_mul_def fl_def)
next
  case False
  with assms have a1: "1 \<le> a" by simp
  define x :: rat where "x = of_int a * commissionRate"
  define u :: rat where "u = 2 powi (ilog2 x - 52)"
  define k where "k = a div 20"
  define j where "j = a mod 20"
  have a_kj: "a = 20 * k + j" by (simp add: k_def j_def)
  have j0: "0 \<le> j" and j20: "j < 20" by (simp_all add: j_def)
  have ra: "(of_int a :: rat) = 20 * of_int k + of_int j"
    by (simp only: a_kj of_int_add of_int_mult of_int_numeral)
  have rj0: "(0::rat) \<le> of_int j" using j0 by simp
  have ra1: "(1::rat) \<le> of_int a" using a1 by simp
  have "(of_int a :: rat) < of_int (2 ^ 50)" using assms(2) by (simp only: of_int_less_iff)
  then have rahi: "(of_int a :: rat) < 2 ^ 50" by simp
  have k0: "0 \<le> k" using assms(1) by (simp add: k_def)
  have x_eq: "x = of_int a / 20 + of_int a / (5 * 2 ^ 56)"
    by (simp add: x_def commissionRate_def field_simps)
  have x0: "0 < x" using ra1 by (simp add: x_def commissionRate_def)
  have "x < 2 ^ 46" using rahi unfolding x_eq by simp
  then have "x < 2 powi 46" by simp
  from ilog2_less [OF x0 this] have e: "7 \<le> 52 - ilog2 x" by simp
  define m where "m = nat (52 - ilog2 x)"
  have m7: "7 \<le> m" using e by (simp add: m_def)
  have "u = 2 powi (- (52 - ilog2 x))" by (simp add: u_def)
  also have "\<dots> = 1 / 2 powi (52 - ilog2 x)" by (rule power_int_minus_divide)
  also have "\<dots> = 1 / 2 ^ m" using e by (simp add: power_int_nonneg_exp m_def)
  finally have u_eq: "u = 1 / 2 ^ m" .
  have u0: "0 < u" by (simp add: u_def)
  have "(2::rat) ^ 7 \<le> 2 ^ m" using m7 by (intro power_increasing) simp_all
  then have u_le: "u \<le> 1 / 128" unfolding u_eq by (simp add: field_simps)
  from fl_pos_bounds [OF x0]
  have lo: "of_int \<lfloor>x / u\<rfloor> * u \<le> fl x" and hi: "fl x \<le> of_int \<lceil>x / u\<rceil> * u"
    by (simp_all add: u_def)
  have "x / u - 1 < of_int \<lfloor>x / u\<rfloor>" by linarith
  then have "(x / u - 1) * u < of_int \<lfloor>x / u\<rfloor> * u" using u0 by (simp only: mult_less_cancel_right_pos)
  moreover have "(x / u - 1) * u = x - u" using u0 by (simp add: left_diff_distrib)
  ultimately have lo': "x - u < fl x" using lo by simp
  have "of_int \<lceil>x / u\<rceil> < x / u + 1" by linarith
  then have "of_int \<lceil>x / u\<rceil> * u < (x / u + 1) * u" using u0 by (simp only: mult_less_cancel_right_pos)
  moreover have "(x / u + 1) * u = x + u" using u0 by (simp add: distrib_right)
  ultimately have hi': "fl x < x + u" using hi by simp
  have small: "of_int a / (5 * 2 ^ 56) < (1::rat) / 320" using rahi by simp
  have small0: "0 \<le> of_int a / ((5::rat) * 2 ^ 56)" using ra1 by simp
  have xlo: "of_int k + of_int j / 20 \<le> x" using small0 unfolding x_eq ra by simp
  have xhi: "x < of_int k + of_int j / 20 + 1 / 320" using small unfolding x_eq ra by simp
  show ?thesis
  proof (cases "j < 10")
    case True
    then have "(of_int j :: rat) \<le> of_int 9" by (simp only: of_int_le_iff)
    then have rj: "(of_int j :: rat) \<le> 9" by simp
    have d: "(a + 10) div 20 = k" using True j0 by (simp add: a_kj)
    have "\<lfloor>fl x + 1 / 2\<rfloor> = k"
    proof (rule floor_unique)
      show "of_int k \<le> fl x + 1 / 2"
        using lo' u_le rj0 xlo by simp
      show "fl x + 1 / 2 < of_int k + 1"
        using hi' u_le rj xhi by simp
    qed
    then show ?thesis by (simp add: Math_round_def js_mul_def x_def d)
  next
    case False
    then have "(of_int 10 :: rat) \<le> of_int j" by (simp only: of_int_le_iff)
    then have rj: "(10::rat) \<le> of_int j" by simp
    have "(of_int j :: rat) < of_int 20" using j20 by (simp only: of_int_less_iff)
    then have rj20: "(of_int j :: rat) < 20" by simp
    have d: "(a + 10) div 20 = k + 1" using False j20 by (simp add: a_kj)
    have "m = Suc (m - 1)" using m7 by simp
    then have "(2::rat) ^ m = 2 * 2 ^ (m - 1)" by (metis power_Suc)
    then have "(of_int (2 * k + 1) / 2) / u = of_int (2 * k + 1) * 2 ^ (m - 1)"
      unfolding u_eq by simp
    also have "\<dots> = of_int ((2 * k + 1) * 2 ^ (m - 1))" by simp
    finally have half_int: "(of_int (2 * k + 1) / 2) / u = of_int ((2 * k + 1) * 2 ^ (m - 1))" .
    have h: "of_int (2 * k + 1) / 2 \<le> x" using rj xlo by simp
    have "(of_int (2 * k + 1) / 2) / u \<le> x / u"
      by (rule divide_right_mono [OF h]) (use u0 in simp)
    then have "(2 * k + 1) * 2 ^ (m - 1) \<le> \<lfloor>x / u\<rfloor>"
      unfolding half_int by (simp only: le_floor_iff)
    then have "(of_int ((2 * k + 1) * 2 ^ (m - 1)) :: rat) \<le> of_int \<lfloor>x / u\<rfloor>"
      by (simp only: of_int_le_iff)
    then have "of_int ((2 * k + 1) * 2 ^ (m - 1)) * u \<le> of_int \<lfloor>x / u\<rfloor> * u"
      using u0 by (simp only: mult_le_cancel_right_pos)
    then have "of_int (2 * k + 1) / 2 \<le> of_int \<lfloor>x / u\<rfloor> * u"
      unfolding half_int [symmetric] using u0 by simp
    with lo have lo2: "of_int (2 * k + 1) / 2 \<le> fl x" by simp
    have "\<lfloor>fl x + 1 / 2\<rfloor> = k + 1"
    proof (rule floor_unique)
      show "of_int (k + 1) \<le> fl x + 1 / 2"
        using lo2 by simp
      show "fl x + 1 / 2 < of_int (k + 1) + 1"
        using hi' u_le rj20 xhi by simp
    qed
    then show ?thesis by (simp add: Math_round_def js_mul_def x_def d)
  qed
qed

section \<open>Order lifecycle\<close>

lemma validateStatusTransition_table:
  "(validateStatusTransition f t = Inr ()) =
     ((f, t) \<in> {(PENDING, PREPARING), (PENDING, CANCELLED), (PREPARING, READY),
                (PREPARING, CANCELLED), (READY, COMPLETED), (READY, CANCELLED)})"
  by (cases f; cases t) (simp_all add: validateStatusTransition_def)

lemma validateStatusTransition_cases:
  "validateStatusTransition f t =
     (if (f, t) \<in> {(PENDING, PREPARING), (PENDING, CANCELLED), (PREPARING, READY),
                 (PREPARING, CANCELLED), (READY, COMPLETED), (READY, CANCELLED)}
      then Inr ()
      else Inl (BadRequestException (''Invalid status transition from ''
             @ OrderStatus_str f @ '' to '' @ OrderStatus_str t)))"
  by (cases f; cases t) (simp_all add: validateStatusTransition_def)

text \<open>
  The run of \<^verbatim>\<open>updateStatus\<close> that no other request interrupts. For an order the caller
  may read, a pair outside the relation is refused with a \<^verbatim>\<open>BadRequestException\<close> naming
  both statuses and nothing is written; a pair of the relation is refused for a customer
  and otherwise written to the row.
\<close>

lemma updateStatus_sequential:
  assumes "OrdersService_findOne d i currentUser = Inr order"
  shows "OrdersService_updateStatus d now i dto currentUser =
     (if (o_status order, usd_status dto) \<in>
             {(PENDING, PREPARING), (PENDING, CANCELLED), (PREPARING, READY),
              (PREPARING, CANCELLED), (READY, COMPLETED), (READY, CANCELLED)}
      then if u_role currentUser = CUSTOMER
           then (Inl (ForbiddenException ''Only restaurant staff can update order status''), d)
           else (Inr (status_data now dto order),
                 d\<lparr>orders := map (\<lambda>x. if o_id x = i then status_data now dto x else x)
                                (orders d)\<rparr>)
      else (Inl (BadRequestException (''Invalid status transition from ''
               @ OrderStatus_str (o_status order) @ '' to '' @ OrderStatus_str (usd_status dto))), d))"
proof -
  have staff: "u_role currentUser \<noteq> CUSTOMER \<Longrightarrow>
      u_role currentUser \<in> {SUPERADMIN, RESTAURANT_OWNER, EMPLOYEE}"
    by (cases "u_role currentUser") simp_all
  from assms have f: "find (\<lambda>x. o_id x = i) (orders d) = Some order"
    by (auto simp add: OrdersService_findOne_def split: option.splits sum.splits)
  show ?thesis
    unfolding OrdersService_updateStatus_def updateStatus_check_def updateStatus_update_def
      validateStatusTransition_cases
    using assms staff f by auto
qed

text \<open>
  C4. The validator's relation is exactly the one of the specification, and its comments
  say that nothing leaves Completed or Cancelled. The service does not keep that: the
  status is validated against the row read at the start of the request, and the write
  that follows the \<^verbatim>\<open>await\<close> is unconditional. First run: the owner's request to set
  Preparing is validated while the order is Pending, the customer's cancel completes,
  then the owner's write lands, and the Cancelled order is Preparing. Second run: a
  request to set Cancelled is validated while the order is Ready, another request
  completes the order, then the first write lands, and the Completed order is
  Cancelled. The validator refuses both pairs.
\<close>

theorem status_write_leaves_terminal:
  "((validateStatusTransition f t = Inr ()) =
      ((f, t) \<in> {(PENDING, PREPARING), (PENDING, CANCELLED), (PREPARING, READY),
                 (PREPARING, CANCELLED), (READY, COMPLETED), (READY, CANCELLED)}))
   \<and> updateStatus_check (ex_db PENDING []) ''order-1'' (ex_statusDto PREPARING) ex_owner
     = Inr (ex_order PENDING)
   \<and> OrdersService_cancel (ex_db PENDING []) 1704106800000 ''order-1'' ex_cancelDto ex_customer
     = (Inr ex_cancelled_order, (ex_db PENDING [])\<lparr>orders := [ex_cancelled_order]\<rparr>)
   \<and> o_status ex_cancelled_order = CANCELLED
   \<and> updateStatus_update ((ex_db PENDING [])\<lparr>orders := [ex_cancelled_order]\<rparr>) 1704106801000
        ''order-1'' (ex_statusDto PREPARING)
     = (Inr (ex_cancelled_order\<lparr>o_status := PREPARING, o_updatedAt := 1704106801000\<rparr>),
        (ex_db PENDING [])\<lparr>orders :=
           [ex_cancelled_order\<lparr>o_status := PREPARING, o_updatedAt := 1704106801000\<rparr>]\<rparr>)
   \<and> validateStatusTransition CANCELLED PREPARING
     = Inl (BadRequestException ''Invalid status transition from CANCELLED to PREPARING'')
   \<and> updateStatus_check (ex_db READY []) ''order-1'' (ex_statusDto CANCELLED) ex_owner
     = Inr (ex_order READY)
   \<and> OrdersService_updateStatus (ex_db READY []) 1704106800000 ''order-1''
        (ex_statusDto COMPLETED) ex_owner
     = (Inr ((ex_order COMPLETED)\<lparr>o_updatedAt := 1704106800000\<rparr>),
        (ex_db READY [])\<lparr>orders := [(ex_order COMPLETED)\<lparr>o_updatedAt := 1704106800000\<rparr>]\<rparr>)
   \<and> updateStatus_update
        ((ex_db READY [])\<lparr>orders := [(ex_order COMPLETED)\<lparr>o_updatedAt := 1704106800000\<rparr>]\<rparr>)
        1704106801000 ''order-1'' (ex_statusDto CANCELLED)
     = (Inr ((ex_order CANCELLED)\<lparr>o_updatedAt := 1704106801000\<rparr>),
        (ex_db READY [])\<lparr>orders := [(ex_order CANCELLED)\<lparr>o_updatedAt := 1704106801000\<rparr>]\<rparr>)
   \<and> validateStatusTransition COMPLETED CANCELLED
     = Inl (BadRequestException ''Invalid status transition from COMPLETED to CANCELLED'')"
  by (rule conjI, rule validateStatusTransition_table) code_simp

section \<open>Commission and synchronous payments\<close>

lemma processStripePayment_fields:
  "processStripePayment env d payment dto order = (Inr p, d') \<Longrightarrow>
     p_amount p = p_amount payment \<and> p_commission p = p_commission payment
     \<and> p_commissionAmount p = p_commissionAmount payment \<and> p_netAmount p = p_netAmount payment
     \<and> p_status p = p_status payment"
  by (auto simp add: processStripePayment_def Let_def split: if_splits sum.splits)

lemma processYookassaPayment_fields:
  "processYookassaPayment env d payment dto order = (Inr p, d') \<Longrightarrow>
     p_amount p = p_amount payment \<and> p_commission p = p_commission payment
     \<and> p_commissionAmount p = p_commissionAmount payment \<and> p_netAmount p = p_netAmount payment
     \<and> p_status p = p_status payment"
  by (auto simp add: processYookassaPayment_def Let_def split: if_splits sum.splits)

lemma create_fields:
  assumes "PaymentsService_create env d newId dto currentUser = (Inr p, d')"
  shows "p_amount p = cpd_amount dto
     \<and> p_commissionAmount p = Math_round (js_mul (cpd_amount dto) commissionRate)
     \<and> p_commission p = p_commissionAmount p
     \<and> p_netAmount p = js_sub (cpd_amount dto) (p_commissionAmount p)
     \<and> p_status p = P_PENDING"
  using assms
  by (cases "cpd_method dto")
     (auto simp add: PaymentsService_create_def Let_def
        dest!: processStripePayment_fields processYookassaPayment_fields
        split: option.splits if_splits)

lemma cash_fields:
  assumes "PaymentsService_processCashPayment d now newId dto currentUser = (Inr p, d')"
  shows "(\<exists>order. find (\<lambda>x. o_id x = cash_orderId dto) (orders d) = Some order
            \<and> p_amount p = o_totalAmount order)
     \<and> p_commissionAmount p = Math_round (js_mul (p_amount p) commissionRate)
     \<and> p_commission p = p_commissionAmount p
     \<and> p_netAmount p = js_sub (p_amount p) (p_commissionAmount p)
     \<and> p_status p = P_COMPLETED \<and> p_method p = CASH"
  using assms
  by (auto simp add: PaymentsService_processCashPayment_def Let_def
        split: option.splits if_splits)

lemma terminal_fields:
  assumes "PaymentsService_processCardTerminalPayment d now newId dto currentUser = (Inr p, d')"
  shows "(\<exists>order. find (\<lambda>x. o_id x = term_orderId dto) (orders d) = Some order
            \<and> p_amount p = o_totalAmount order)
     \<and> p_commissionAmount p = Math_round (js_mul (p_amount p) commissionRate)
     \<and> p_commission p = p_commissionAmount p
     \<and> p_netAmount p = js_sub (p_amount p) (p_commissionAmount p)
     \<and> p_status p = P_COMPLETED \<and> p_method p = CARD_TERMINAL"
  using assms
  by (auto simp add: PaymentsService_processCardTerminalPayment_def Let_def
        split: option.splits if_splits)

lemma net_of_int:
  assumes "0 \<le> a" and "a < 2 ^ 50"
  shows "js_sub (of_int a) (of_int ((a + 10) div 20)) = of_int (a - (a + 10) div 20)"
proof -
  have "0 \<le> (a + 10) div 20" using assms(1) by simp
  moreover have "(a + 10) div 20 \<le> a + 10" using assms(1) by simp
  ultimately have "\<bar>a - (a + 10) div 20\<bar> < 2 ^ 53" using assms by simp
  from fl_of_int [OF this] show ?thesis by (simp add: js_sub_def)
qed

lemma commissionRate_literal: "commissionRate = fl (5 / 100)"
  by code_simp

text \<open>
  C1 (as the code has it). Every payment that is created, through \<^verbatim>\<open>create\<close>, the cash
  path or the terminal path, carries a commission of \<^verbatim>\<open>Math.round(amount * 0.05)\<close>: the
  rate is the service's constant 5 per cent, not a rate of the restaurant, and the
  product is rounded to the nearest integer, halves upwards, not floored. The net
  amount is the amount minus the commission. For a whole amount \<open>a\<close> below \<open>2^50\<close>
  the binary64 arithmetic is exact enough for the commission to be \<open>(a + 10) div 20\<close>;
  an amount of 1099 gives a commission of 55 and a net amount of 1044.
\<close>

theorem payment_commission:
  assumes "PaymentsService_create env d newId createDto currentUser = (Inr p, d')
     \<or> PaymentsService_processCashPayment d now newId cashDto currentUser = (Inr p, d')
     \<or> PaymentsService_processCardTerminalPayment d now newId terminalDto currentUser = (Inr p, d')"
  shows "commissionRate = fl (5 / 100)
     \<and> p_commissionAmount p = Math_round (js_mul (p_amount p) commissionRate)
     \<and> p_netAmount p = js_sub (p_amount p) (p_commissionAmount p)
     \<and> (\<forall>a. p_amount p = of_int a \<and> 0 \<le> a \<and> a < 2 ^ 50 \<longrightarrow>
            p_commissionAmount p = of_int ((a + 10) div 20)
          \<and> p_netAmount p = of_int (a - (a + 10) div 20))"
proof -
  from assms have f: "p_commissionAmount p = Math_round (js_mul (p_amount p) commissionRate)
     \<and> p_netAmount p = js_sub (p_amount p) (p_commissionAmount p)"
    using create_fields cash_fields terminal_fields by metis
  have "p_commissionAmount p = of_int ((a + 10) div 20)
          \<and> p_netAmount p = of_int (a - (a + 10) div 20)"
    if "p_amount p = of_int a \<and> 0 \<le> a \<and> a < 2 ^ 50" for a
    using f that by (simp add: commission_of_int net_of_int)
  with f commissionRate_literal show ?thesis by blast
qed

theorem payment_commission_witness:
  "PaymentsService_create ex_env (ex_db PENDING []) ''pay-1''
      (ex_createPaymentDto 1099 STRIPE) ex_customer
     = (Inr ex_payment_1099, ex_db PENDING [ex_payment_1099])
   \<and> p_amount ex_payment_1099 = of_int 1099
   \<and> p_commissionAmount ex_payment_1099 = of_int ((1099 + 10) div 20)
   \<and> p_netAmount ex_payment_1099 = of_int (1099 - (1099 + 10) div 20)"
proof -
  have h: "PaymentsService_create ex_env (ex_db PENDING []) ''pay-1''
      (ex_createPaymentDto 1099 STRIPE) ex_customer
     = (Inr ex_payment_1099, ex_db PENDING [ex_payment_1099])"
    by code_simp
  have a: "p_amount ex_payment_1099 = of_int 1099 \<and> (0::int) \<le> 1099 \<and> (1099::int) < 2 ^ 50"
    by (simp add: ex_payment_1099_def)
  from payment_commission [OF disjI1, OF h] a
  have "p_commissionAmount ex_payment_1099 = of_int ((1099 + 10) div 20)
      \<and> p_netAmount ex_payment_1099 = of_int (1099 - (1099 + 10) div 20)"
    by blast
  with h a show ?thesis by blast
qed

text \<open>
  Against C1 as stated: the payment created for an amount of 1099 has commission 55 and
  net 1044, neither the
  109 and 990 of a floored 10 per cent, nor the floor 54 of the product with the
  service's own rate.
\<close>

theorem commission_floor_counterexample:
  "fst (PaymentsService_create ex_env (ex_db PENDING []) ''pay-1''
      (ex_createPaymentDto 1099 STRIPE) ex_customer) = Inr ex_payment_1099
   \<and> p_amount ex_payment_1099 = 1099
   \<and> p_commissionAmount ex_payment_1099 = 55
   \<and> p_netAmount ex_payment_1099 = 1044
   \<and> p_commissionAmount ex_payment_1099 \<noteq> of_int \<lfloor>1099 * (1 / 10 :: rat)\<rfloor>
   \<and> p_commissionAmount ex_payment_1099 \<noteq> of_int \<lfloor>js_mul 1099 commissionRate\<rfloor>
   \<and> p_netAmount ex_payment_1099 \<noteq> 990"
  by code_simp

lemma cash_result:
  assumes "PaymentsService_processCashPayment d now newId dto currentUser = (Inr p, d')"
  shows "d' = d\<lparr>payments := payments d @ [p]\<rparr>
     \<and> map_of (p_metadata p) ''amountReceived'' = Some (JNum (cash_amountReceived dto))
     \<and> PaymentsService_processCashPayment d now newId (dto\<lparr>cash_amountReceived := r\<rparr>) currentUser
        = (Inr (p\<lparr>p_metadata := AList.update ''amountReceived'' (JNum r) (p_metadata p)\<rparr>),
           d\<lparr>payments := payments d
              @ [p\<lparr>p_metadata := AList.update ''amountReceived'' (JNum r) (p_metadata p)\<rparr>]\<rparr>)"
  using assms
  by (auto simp add: PaymentsService_processCashPayment_def Let_def json_obj_def
        List.map_filter_simps split: option.splits if_splits)

lemma terminal_result:
  assumes "PaymentsService_processCardTerminalPayment d now newId dto currentUser = (Inr p, d')"
  shows "d' = d\<lparr>payments := payments d @ [p]\<rparr>"
  using assms
  by (auto simp add: PaymentsService_processCardTerminalPayment_def Let_def
        split: option.splits if_splits)

text \<open>
  C10. A successful cash or terminal payment records the stored total of the order as
  its amount and is inserted with status Completed. The cash DTO's \<^verbatim>\<open>amountReceived\<close>
  appears in the metadata only: the same request with any other \<^verbatim>\<open>amountReceived\<close>
  creates the same payment up to that metadata entry. The terminal DTO has no amount
  field at all.
\<close>

theorem cash_terminal_amount:
  "(PaymentsService_processCashPayment d now newId cashDto currentUser = (Inr p, d') \<longrightarrow>
      (\<exists>order. find (\<lambda>x. o_id x = cash_orderId cashDto) (orders d) = Some order
               \<and> p_amount p = o_totalAmount order)
      \<and> p_status p = P_COMPLETED
      \<and> d' = d\<lparr>payments := payments d @ [p]\<rparr>
      \<and> map_of (p_metadata p) ''amountReceived'' = Some (JNum (cash_amountReceived cashDto))
      \<and> (\<forall>r. PaymentsService_processCashPayment d now newId
                 (cashDto\<lparr>cash_amountReceived := r\<rparr>) currentUser
               = (Inr (p\<lparr>p_metadata := AList.update ''amountReceived'' (JNum r) (p_metadata p)\<rparr>),
                  d\<lparr>payments := payments d
                     @ [p\<lparr>p_metadata := AList.update ''amountReceived'' (JNum r) (p_metadata p)\<rparr>]\<rparr>)))
   \<and> (PaymentsService_processCardTerminalPayment d now newId terminalDto currentUser = (Inr q, d'') \<longrightarrow>
      (\<exists>order. find (\<lambda>x. o_id x = term_orderId terminalDto) (orders d) = Some order
               \<and> p_amount q = o_totalAmount order)
      \<and> p_status q = P_COMPLETED
      \<and> d'' = d\<lparr>payments := payments d @ [q]\<rparr>)"
  using cash_fields [of d now newId cashDto currentUser p d']
    cash_result [of d now newId cashDto currentUser p d']
    terminal_fields [of d now newId terminalDto currentUser q d'']
    terminal_result [of d now newId terminalDto currentUser q d'']
  by blast

theorem cash_terminal_amount_witness:
  "PaymentsService_processCashPayment (ex_db READY []) 1704106800000 ''pay-2''
       (ex_cashDto 2000) ex_employee_user
     = (Inr (ex_cash_payment 2000), ex_db READY [ex_cash_payment 2000])
   \<and> PaymentsService_processCardTerminalPayment (ex_db READY []) 1704106800000 ''pay-2''
       ex_terminalDto ex_employee_user
     = (Inr ex_terminal_payment, ex_db READY [ex_terminal_payment])
   \<and> p_amount (ex_cash_payment 2000) = o_totalAmount (ex_order READY)
   \<and> p_amount ex_terminal_payment = o_totalAmount (ex_order READY)
   \<and> p_status (ex_cash_payment 2000) = P_COMPLETED
   \<and> p_status ex_terminal_payment = P_COMPLETED
   \<and> fst (PaymentsService_processCashPayment (ex_db READY []) 1704106800000 ''pay-2''
          ((ex_cashDto 2000)\<lparr>cash_amountReceived := 5000\<rparr>) ex_employee_user)
       = Inr (ex_cash_payment 5000)"
proof -
  have c: "PaymentsService_processCashPayment (ex_db READY []) 1704106800000 ''pay-2''
       (ex_cashDto 2000) ex_employee_user
     = (Inr (ex_cash_payment 2000), ex_db READY [ex_cash_payment 2000])"
    by code_simp
  have t: "PaymentsService_processCardTerminalPayment (ex_db READY []) 1704106800000 ''pay-2''
       ex_terminalDto ex_employee_user
     = (Inr ex_terminal_payment, ex_db READY [ex_terminal_payment])"
    by code_simp
  have o: "find (\<lambda>x. o_id x = cash_orderId (ex_cashDto 2000)) (orders (ex_db READY []))
      = Some (ex_order READY)"
    "find (\<lambda>x. o_id x = term_orderId ex_terminalDto) (orders (ex_db READY []))
      = Some (ex_order READY)"
    by code_simp+
  have m: "(ex_cash_payment 2000)
      \<lparr>p_metadata := AList.update ''amountReceived'' (JNum 5000) (p_metadata (ex_cash_payment 2000))\<rparr>
      = ex_cash_payment 5000"
    by (simp add: ex_cash_payment_def)
  from cash_terminal_amount [of "ex_db READY []" 1704106800000 "''pay-2''" "ex_cashDto 2000"
      ex_employee_user "ex_cash_payment 2000" "ex_db READY [ex_cash_payment 2000]"
      ex_terminalDto ex_terminal_payment "ex_db READY [ex_terminal_payment]"] c t
  show ?thesis unfolding o by (simp add: m)
qed

section \<open>Cancellation, refunds and webhooks\<close>

text \<open>
  The refund flag of \<^verbatim>\<open>cancel\<close> is not used: the outcome is the same for every value of
  it, and no call of \<^verbatim>\<open>cancel\<close> changes a payment.
\<close>

lemma cancel_refund_flag_unused:
  "OrdersService_cancel d now i (dto\<lparr>cd_refund := r\<rparr>) currentUser =
     OrdersService_cancel d now i dto currentUser
   \<and> payments (snd (OrdersService_cancel d now i dto currentUser)) = payments d"
  by (simp add: OrdersService_cancel_def Let_def update_order_def
        split: sum.splits)

text \<open>
  C3. Scenario S6: the order is Preparing, its payment Completed, the owner cancels with
  \<^verbatim>\<open>refund = true\<close>, and the refund provider answers 503. A refund of the payment does
  fail on that answer. The cancel never gets there: its branch for a requested refund
  holds only a \<^verbatim>\<open>TODO\<close> and a commented-out call, so it returns the order as Cancelled,
  the order row is rewritten, and the payment stays Completed, not refunded.
\<close>

theorem cancel_skips_refund:
  "PaymentsService_refund (ex_env\<lparr>stripe_refunds_create := Inl ''503 Service Unavailable''\<rparr>)
      (ex_db PREPARING [ex_payment P_COMPLETED]) 1704106800000 ''pay-1'' ex_refundDto ex_owner
     = (Inl (BadRequestException ''Refund failed: 503 Service Unavailable''),
        ex_db PREPARING [ex_payment P_COMPLETED])
   \<and> cd_refund ex_cancelDto = Some True
   \<and> OrdersService_cancel (ex_db PREPARING [ex_payment P_COMPLETED]) 1704106800000 ''order-1''
      ex_cancelDto ex_owner
     = (Inr ex_cancelled_order,
        (ex_db PREPARING [ex_payment P_COMPLETED])\<lparr>orders := [ex_cancelled_order]\<rparr>)
   \<and> o_status ex_cancelled_order = CANCELLED
   \<and> orders (snd (OrdersService_cancel (ex_db PREPARING [ex_payment P_COMPLETED]) 1704106800000
         ''order-1'' ex_cancelDto ex_owner))
       \<noteq> orders (ex_db PREPARING [ex_payment P_COMPLETED])
   \<and> payments (snd (OrdersService_cancel (ex_db PREPARING [ex_payment P_COMPLETED]) 1704106800000
         ''order-1'' ex_cancelDto ex_owner))
       = [ex_payment P_COMPLETED]"
  by code_simp

text \<open>
  C9 (as the code has it). A customer may cancel only an order they placed themselves,
  and may do so in every status but Completed and Cancelled: Pending, Preparing and
  Ready alike. On somebody else's order the request is refused as forbidden.
\<close>

theorem customer_cancel:
  assumes "u_role currentUser = CUSTOMER"
    and "find (\<lambda>x. o_id x = i) (orders d) = Some order"
  shows "fst (OrdersService_cancel d now i dto currentUser) =
     (if o_customerId order \<noteq> Some (u_id currentUser)
      then Inl (ForbiddenException ''You can only access your own orders'')
      else if o_status order = COMPLETED
      then Inl (BadRequestException ''Cannot cancel a completed order'')
      else if o_status order = CANCELLED
      then Inl (BadRequestException ''Order is already cancelled'')
      else Inr (order\<lparr>o_status := CANCELLED,
                  o_specialInstructions :=
                    Some (cancelled_instructions (o_specialInstructions order) (cd_reason dto)),
                  o_updatedAt := now\<rparr>))"
  using assms
  by (simp add: OrdersService_cancel_def OrdersService_findOne_def verifyOrderAccess_def Let_def)

theorem customer_cancel_witness:
  "u_role ex_customer = CUSTOMER
   \<and> find (\<lambda>x. o_id x = ''order-1'') (orders (ex_db READY [])) = Some (ex_order READY)
   \<and> fst (OrdersService_cancel (ex_db READY []) 1704106800000 ''order-1'' ex_cancelDto ex_customer)
       = Inr ((ex_order READY)\<lparr>o_status := CANCELLED,
                o_specialInstructions := Some ''CANCELLED: kitchen closed'',
                o_updatedAt := 1704106800000\<rparr>)"
proof -
  have r: "u_role ex_customer = CUSTOMER" by (simp add: ex_customer_def)
  have f: "find (\<lambda>x. o_id x = ''order-1'') (orders (ex_db READY [])) = Some (ex_order READY)"
    by code_simp
  from customer_cancel [OF r f, of 1704106800000 ex_cancelDto] r f
  show ?thesis
    by (simp add: ex_order_def ex_customer_def ex_cancelDto_def cancelled_instructions_def)
qed

text \<open>
  Against C9 as stated: a customer cancels their own order while it is Preparing, and the
  order is cancelled.
\<close>

theorem customer_cancel_counterexample:
  "u_role ex_customer = CUSTOMER
   \<and> o_customerId (ex_order PREPARING) = Some (u_id ex_customer)
   \<and> o_status (ex_order PREPARING) \<noteq> PENDING
   \<and> OrdersService_cancel (ex_db PREPARING []) 1704106800000 ''order-1'' ex_cancelDto ex_customer
       = (Inr ex_cancelled_order, (ex_db PREPARING [])\<lparr>orders := [ex_cancelled_order]\<rparr>)"
  by code_simp






lemma find_map_replace:
  assumes "find P xs = Some p" and "P p'"
  shows "find P (map (\<lambda>x. if p_id x = p_id p then p' else x) xs) = Some p'"
  using assms by (induction xs) (auto split: if_splits)

lemma settle_twice:
  assumes ext: "\<And>p. p_externalPaymentId (upd p) = p_externalPaymentId p"
             "\<And>p. p_externalPaymentId (upd2 p) = p_externalPaymentId p"
    and ids: "\<And>p. p_id (upd p) = p_id p"
    and core: "\<And>p. payment_core (upd2 (upd p)) = payment_core (upd p)"
  shows "map payment_core (payments (settle upd2 ext (settle upd ext d)))
       = map payment_core (payments (settle upd ext d))"
proof (cases "find (\<lambda>x. p_externalPaymentId x = Some ext) (payments d)")
  case None
  then show ?thesis by (simp add: settle_def)
next
  case (Some p)
  then have "p_externalPaymentId p = Some ext"
    by (auto simp add: find_Some_iff)
  then have "p_externalPaymentId (upd p) = Some ext" by (simp add: ext)
  from find_map_replace [OF Some, of "upd p", OF this]
  have f: "find (\<lambda>x. p_externalPaymentId x = Some ext)
             (map (\<lambda>x. if p_id x = p_id p then upd p else x) (payments d)) = Some (upd p)" .
  show ?thesis
    using Some f by (simp add: settle_def update_payment_def ids core o_def)
qed

lemma handlers_settle:
  "handleStripePaymentSuccess d now obj =
     settle (\<lambda>payment. payment\<lparr>p_status := P_COMPLETED,
                     p_metadata :=
                       spread_set ''completedAt'' (JStr (toISOString now))
                         (spread_set ''stripePaymentIntent'' (po_json obj)
                            (p_metadata payment))\<rparr>) (po_id obj) d"
  "handleStripePaymentFailed d now obj =
     settle (\<lambda>payment. payment\<lparr>p_status := P_FAILED,
                     p_metadata :=
                       spread_set ''failureReason''
                           (JStr (or_str (po_failure obj) ''Payment failed''))
                         (spread_set ''failedAt'' (JStr (toISOString now))
                            (spread_set ''stripePaymentIntent'' (po_json obj)
                               (p_metadata payment)))\<rparr>) (po_id obj) d"
  "handleYookassaPaymentSuccess d now obj =
     settle (\<lambda>payment. payment\<lparr>p_status := P_COMPLETED,
                     p_metadata :=
                       spread_set ''completedAt'' (JStr (toISOString now))
                         (spread_set ''yookassaPayment'' (po_json obj)
                            (p_metadata payment))\<rparr>) (po_id obj) d"
  "handleYookassaPaymentFailed d now obj =
     settle (\<lambda>payment. payment\<lparr>p_status := P_FAILED,
                     p_metadata :=
                       spread_set ''failureReason''
                           (JStr (or_str (po_failure obj) ''Payment failed''))
                         (spread_set ''failedAt'' (JStr (toISOString now))
                            (spread_set ''yookassaPayment'' (po_json obj)
                               (p_metadata payment)))\<rparr>) (po_id obj) d"
  by (simp_all add: handleStripePaymentSuccess_def handleStripePaymentFailed_def
        handleYookassaPaymentSuccess_def handleYookassaPaymentFailed_def settle_def)

lemma handleWebhook_twice:
  "map payment_core (payments (snd (PaymentsService_handleWebhook
       (snd (PaymentsService_handleWebhook d t w)) t' w)))
   = map payment_core (payments (snd (PaymentsService_handleWebhook d t w)))"
  by (simp add: PaymentsService_handleWebhook_def handleStripeWebhook_def
        handleYookassaWebhook_def Let_def handlers_settle)
     (intro conjI impI; rule settle_twice; simp add: payment_core_def)

lemma deliver_replay:
  "map payment_core (payments (deliver (snd (PaymentsService_handleWebhook d t w))
        (map (\<lambda>t'. (t', w)) ts)))
   = map payment_core (payments (snd (PaymentsService_handleWebhook d t w)))"
proof (induction ts arbitrary: d t)
  case Nil
  show ?case by simp
next
  case (Cons t' ts)
  have "map payment_core (payments (deliver (snd (PaymentsService_handleWebhook d t w))
        (map (\<lambda>t'. (t', w)) (t' # ts))))
      = map payment_core (payments (snd (PaymentsService_handleWebhook
           (snd (PaymentsService_handleWebhook d t w)) t' w)))"
    using Cons.IH [of "snd (PaymentsService_handleWebhook d t w)" t'] by simp
  then show ?case by (simp only: handleWebhook_twice)
qed

lemma settle_overwrites:
  assumes "find (\<lambda>x. p_externalPaymentId x = Some ext) (payments d) = Some payment"
    and "p_externalPaymentId (upd payment) = p_externalPaymentId payment"
  shows "find (\<lambda>x. p_externalPaymentId x = Some ext) (payments (settle upd ext d))
       = Some (upd payment)"
proof -
  from assms(1) have "p_externalPaymentId payment = Some ext"
    by (auto simp add: find_Some_iff)
  with assms(2) have "p_externalPaymentId (upd payment) = Some ext" by simp
  from find_map_replace [OF assms(1), of "upd payment", OF this] assms(1)
  show ?thesis by (simp add: settle_def update_payment_def)
qed

lemma deliver_same_event:
  assumes hw: "\<And>d t. snd (PaymentsService_handleWebhook d t w) = settle (U t) ext d"
    and U_ext: "\<And>t p. p_externalPaymentId (U t p) = p_externalPaymentId p"
    and f: "find (\<lambda>x. p_externalPaymentId x = Some ext) (payments d) = Some payment"
  shows "find (\<lambda>x. p_externalPaymentId x = Some ext)
           (payments (deliver d (map (\<lambda>t'. (t', w)) ts)))
         = Some (foldl (\<lambda>q t'. U t' q) payment ts)"
  using f
proof (induction ts arbitrary: d payment)
  case Nil
  then show ?case by simp
next
  case (Cons t ts)
  from settle_overwrites [OF Cons.prems, of "U t"]
  have "find (\<lambda>x. p_externalPaymentId x = Some ext) (payments (settle (U t) ext d))
      = Some (U t payment)"
    by (simp add: U_ext)
  from Cons.IH [OF this] show ?case by (simp add: hw)
qed

lemma foldl_core:
  assumes "\<And>t q. payment_core ((U t q)\<lparr>p_status := S\<rparr>) = payment_core (q\<lparr>p_status := S\<rparr>)"
  shows "payment_core ((foldl (\<lambda>q t'. U t' q) p ts)\<lparr>p_status := S\<rparr>)
       = payment_core (p\<lparr>p_status := S\<rparr>)"
  by (induction ts arbitrary: p) (simp_all add: assms)

lemma last_delivery:
  assumes hw: "\<And>d t. snd (PaymentsService_handleWebhook d t w)
                 = settle (\<lambda>q. q\<lparr>p_status := S, p_metadata := M t (p_metadata q)\<rparr>) ext d"
    and stamp: "\<And>t m. map_of (M t m) K = Some (JStr (toISOString t))"
    and f: "find (\<lambda>x. p_externalPaymentId x = Some ext) (payments d) = Some payment"
  shows "\<exists>p'. find (\<lambda>x. p_externalPaymentId x = Some ext)
                (payments (deliver d (map (\<lambda>t'. (t', w)) (ts @ [t])))) = Some p'
            \<and> p_status p' = S
            \<and> payment_core p' = payment_core (payment\<lparr>p_status := S\<rparr>)
            \<and> map_of (p_metadata p') K = Some (JStr (toISOString t))"
proof -
  let ?U = "\<lambda>t q. q\<lparr>p_status := S, p_metadata := M t (p_metadata q)\<rparr>"
  let ?q = "foldl (\<lambda>q t'. ?U t' q) payment ts"
  from deliver_same_event [of w ?U ext d payment "ts @ [t]", OF hw _ f]
  have found: "find (\<lambda>x. p_externalPaymentId x = Some ext)
                (payments (deliver d (map (\<lambda>t'. (t', w)) (ts @ [t])))) = Some (?U t ?q)"
    by simp
  have "payment_core (?q\<lparr>p_status := S\<rparr>) = payment_core (payment\<lparr>p_status := S\<rparr>)"
    by (rule foldl_core) (simp add: payment_core_def)
  then have "payment_core (?U t ?q) = payment_core (payment\<lparr>p_status := S\<rparr>)"
    by (simp add: payment_core_def)
  with found stamp show ?thesis by simp
qed

lemma stamps:
  "map_of (spread_set ''completedAt'' (JStr (toISOString t)) m) ''completedAt''
     = Some (JStr (toISOString t))"
  "map_of (spread_set ''failureReason'' r (spread_set ''failedAt'' (JStr (toISOString t)) m))
      ''failedAt'' = Some (JStr (toISOString t))"
  by (simp_all add: spread_set_def update_conv')

text \<open>
  C2 (as the code has it). No handler looks at the status a payment has. An event whose
  payment is found by its external id rewrites that payment whatever its status was,
  Completed, Failed and Refunded included: a success event, of either provider, sets the
  status to Completed and writes the provider object and the \<^verbatim>\<open>completedAt\<close> timestamp
  into the metadata; a failure event sets the status to Failed and writes the provider
  object, the \<^verbatim>\<open>failedAt\<close> timestamp and the failure reason. What replay preserves:
  delivering the same event N times leaves every payment as one delivery leaves it, up
  to its metadata; the timestamp in the metadata is that of the last delivery.
\<close>

theorem webhook_replay:
  "map payment_core (payments (deliver d (map (\<lambda>t'. (t', w)) (t # ts))))
     = map payment_core (payments (deliver d [(t, w)]))
   \<and> (find (\<lambda>x. p_externalPaymentId x = Some (po_id obj)) (payments d) = Some payment \<longrightarrow>
        find (\<lambda>x. p_externalPaymentId x = Some (po_id obj))
          (payments (handleStripePaymentSuccess d now obj))
        = Some (payment\<lparr>p_status := P_COMPLETED,
                     p_metadata :=
                       spread_set ''completedAt'' (JStr (toISOString now))
                         (spread_set ''stripePaymentIntent'' (po_json obj)
                            (p_metadata payment))\<rparr>)
        \<and> find (\<lambda>x. p_externalPaymentId x = Some (po_id obj))
          (payments (handleYookassaPaymentSuccess d now obj))
        = Some (payment\<lparr>p_status := P_COMPLETED,
                     p_metadata :=
                       spread_set ''completedAt'' (JStr (toISOString now))
                         (spread_set ''yookassaPayment'' (po_json obj)
                            (p_metadata payment))\<rparr>)
        \<and> find (\<lambda>x. p_externalPaymentId x = Some (po_id obj))
          (payments (handleStripePaymentFailed d now obj))
        = Some (payment\<lparr>p_status := P_FAILED,
                     p_metadata :=
                       spread_set ''failureReason''
                           (JStr (or_str (po_failure obj) ''Payment failed''))
                         (spread_set ''failedAt'' (JStr (toISOString now))
                            (spread_set ''stripePaymentIntent'' (po_json obj)
                               (p_metadata payment)))\<rparr>)
        \<and> find (\<lambda>x. p_externalPaymentId x = Some (po_id obj))
          (payments (handleYookassaPaymentFailed d now obj))
        = Some (payment\<lparr>p_status := P_FAILED,
                     p_metadata :=
                       spread_set ''failureReason''
                           (JStr (or_str (po_failure obj) ''Payment failed''))
                         (spread_set ''failedAt'' (JStr (toISOString now))
                            (spread_set ''yookassaPayment'' (po_json obj)
                               (p_metadata payment)))\<rparr>))
   \<and> (find (\<lambda>x. p_externalPaymentId x = Some (po_id (wp_object (wh_payload w)))) (payments d)
          = Some payment
        \<and> (wh_provider w = ''stripe'' \<and> wp_type (wh_payload w) = ''payment_intent.succeeded''
           \<or> wh_provider w = ''yookassa'' \<and> wp_type (wh_payload w) = ''payment.succeeded'') \<longrightarrow>
        (\<exists>p'. find (\<lambda>x. p_externalPaymentId x = Some (po_id (wp_object (wh_payload w))))
                 (payments (deliver d (map (\<lambda>t'. (t', w)) (ts @ [t])))) = Some p'
             \<and> p_status p' = P_COMPLETED
             \<and> payment_core p' = payment_core (payment\<lparr>p_status := P_COMPLETED\<rparr>)
             \<and> map_of (p_metadata p') ''completedAt'' = Some (JStr (toISOString t))))
   \<and> (find (\<lambda>x. p_externalPaymentId x = Some (po_id (wp_object (wh_payload w)))) (payments d)
          = Some payment
        \<and> (wh_provider w = ''stripe'' \<and> wp_type (wh_payload w) = ''payment_intent.payment_failed''
           \<or> wh_provider w = ''yookassa'' \<and> wp_type (wh_payload w) = ''payment.canceled'') \<longrightarrow>
        (\<exists>p'. find (\<lambda>x. p_externalPaymentId x = Some (po_id (wp_object (wh_payload w))))
                 (payments (deliver d (map (\<lambda>t'. (t', w)) (ts @ [t])))) = Some p'
             \<and> p_status p' = P_FAILED
             \<and> payment_core p' = payment_core (payment\<lparr>p_status := P_FAILED\<rparr>)
             \<and> map_of (p_metadata p') ''failedAt'' = Some (JStr (toISOString t))))"
proof (intro conjI impI)
  show "map payment_core (payments (deliver d (map (\<lambda>t'. (t', w)) (t # ts))))
     = map payment_core (payments (deliver d [(t, w)]))"
    using deliver_replay [of d t w ts] by simp
next
  assume f: "find (\<lambda>x. p_externalPaymentId x = Some (po_id obj)) (payments d) = Some payment"
  show "find (\<lambda>x. p_externalPaymentId x = Some (po_id obj))
          (payments (handleStripePaymentSuccess d now obj))
        = Some (payment\<lparr>p_status := P_COMPLETED,
                     p_metadata :=
                       spread_set ''completedAt'' (JStr (toISOString now))
                         (spread_set ''stripePaymentIntent'' (po_json obj)
                            (p_metadata payment))\<rparr>)"
    unfolding handlers_settle by (rule settle_overwrites [OF f]) simp
  show "find (\<lambda>x. p_externalPaymentId x = Some (po_id obj))
          (payments (handleYookassaPaymentSuccess d now obj))
        = Some (payment\<lparr>p_status := P_COMPLETED,
                     p_metadata :=
                       spread_set ''completedAt'' (JStr (toISOString now))
                         (spread_set ''yookassaPayment'' (po_json obj)
                            (p_metadata payment))\<rparr>)"
    unfolding handlers_settle by (rule settle_overwrites [OF f]) simp
  show "find (\<lambda>x. p_externalPaymentId x = Some (po_id obj))
          (payments (handleStripePaymentFailed d now obj))
        = Some (payment\<lparr>p_status := P_FAILED,
                     p_metadata :=
                       spread_set ''failureReason''
                           (JStr (or_str (po_failure obj) ''Payment failed''))
                         (spread_set ''failedAt'' (JStr (toISOString now))
                            (spread_set ''stripePaymentIntent'' (po_json obj)
                               (p_metadata payment)))\<rparr>)"
    unfolding handlers_settle by (rule settle_overwrites [OF f]) simp
  show "find (\<lambda>x. p_externalPaymentId x = Some (po_id obj))
          (payments (handleYookassaPaymentFailed d now obj))
        = Some (payment\<lparr>p_status := P_FAILED,
                     p_metadata :=
                       spread_set ''failureReason''
                           (JStr (or_str (po_failure obj) ''Payment failed''))
                         (spread_set ''failedAt'' (JStr (toISOString now))
                            (spread_set ''yookassaPayment'' (po_json obj)
                               (p_metadata payment)))\<rparr>)"
    unfolding handlers_settle by (rule settle_overwrites [OF f]) simp
next
  assume a: "find (\<lambda>x. p_externalPaymentId x = Some (po_id (wp_object (wh_payload w))))
          (payments d) = Some payment
        \<and> (wh_provider w = ''stripe'' \<and> wp_type (wh_payload w) = ''payment_intent.succeeded''
           \<or> wh_provider w = ''yookassa'' \<and> wp_type (wh_payload w) = ''payment.succeeded'')"
  then have f: "find (\<lambda>x. p_externalPaymentId x = Some (po_id (wp_object (wh_payload w))))
          (payments d) = Some payment" ..
  from a consider
      (stripe) "wh_provider w = ''stripe''" "wp_type (wh_payload w) = ''payment_intent.succeeded''"
    | (yookassa) "wh_provider w = ''yookassa''" "wp_type (wh_payload w) = ''payment.succeeded''"
    by blast
  then show "\<exists>p'. find (\<lambda>x. p_externalPaymentId x = Some (po_id (wp_object (wh_payload w))))
                 (payments (deliver d (map (\<lambda>t'. (t', w)) (ts @ [t])))) = Some p'
             \<and> p_status p' = P_COMPLETED
             \<and> payment_core p' = payment_core (payment\<lparr>p_status := P_COMPLETED\<rparr>)
             \<and> map_of (p_metadata p') ''completedAt'' = Some (JStr (toISOString t))"
  proof cases
    case stripe
    show ?thesis
      by (rule last_delivery [where M = "\<lambda>t m. spread_set ''completedAt'' (JStr (toISOString t))
                (spread_set ''stripePaymentIntent'' (po_json (wp_object (wh_payload w))) m)",
              OF _ _ f])
         (simp_all add: stripe PaymentsService_handleWebhook_def handleStripeWebhook_def
            Let_def handlers_settle stamps)
  next
    case yookassa
    show ?thesis
      by (rule last_delivery [where M = "\<lambda>t m. spread_set ''completedAt'' (JStr (toISOString t))
                (spread_set ''yookassaPayment'' (po_json (wp_object (wh_payload w))) m)",
              OF _ _ f])
         (simp_all add: yookassa PaymentsService_handleWebhook_def handleYookassaWebhook_def
            Let_def handlers_settle stamps)
  qed
next
  assume a: "find (\<lambda>x. p_externalPaymentId x = Some (po_id (wp_object (wh_payload w))))
          (payments d) = Some payment
        \<and> (wh_provider w = ''stripe'' \<and> wp_type (wh_payload w) = ''payment_intent.payment_failed''
           \<or> wh_provider w = ''yookassa'' \<and> wp_type (wh_payload w) = ''payment.canceled'')"
  then have f: "find (\<lambda>x. p_externalPaymentId x = Some (po_id (wp_object (wh_payload w))))
          (payments d) = Some payment" ..
  from a consider
      (stripe) "wh_provider w = ''stripe''"
        "wp_type (wh_payload w) = ''payment_intent.payment_failed''"
    | (yookassa) "wh_provider w = ''yookassa''" "wp_type (wh_payload w) = ''payment.canceled''"
    by blast
  then show "\<exists>p'. find (\<lambda>x. p_externalPaymentId x = Some (po_id (wp_object (wh_payload w))))
                 (payments (deliver d (map (\<lambda>t'. (t', w)) (ts @ [t])))) = Some p'
             \<and> p_status p' = P_FAILED
             \<and> payment_core p' = payment_core (payment\<lparr>p_status := P_FAILED\<rparr>)
             \<and> map_of (p_metadata p') ''failedAt'' = Some (JStr (toISOString t))"
  proof cases
    case stripe
    show ?thesis
      by (rule last_delivery [where M = "\<lambda>t m. spread_set ''failureReason''
                (JStr (or_str (po_failure (wp_object (wh_payload w))) ''Payment failed''))
                (spread_set ''failedAt'' (JStr (toISOString t))
                  (spread_set ''stripePaymentIntent'' (po_json (wp_object (wh_payload w))) m))",
              OF _ _ f])
         (simp_all add: stripe PaymentsService_handleWebhook_def handleStripeWebhook_def
            Let_def handlers_settle stamps)
  next
    case yookassa
    show ?thesis
      by (rule last_delivery [where M = "\<lambda>t m. spread_set ''failureReason''
                (JStr (or_str (po_failure (wp_object (wh_payload w))) ''Payment failed''))
                (spread_set ''failedAt'' (JStr (toISOString t))
                  (spread_set ''yookassaPayment'' (po_json (wp_object (wh_payload w))) m))",
              OF _ _ f])
         (simp_all add: yookassa PaymentsService_handleWebhook_def handleYookassaWebhook_def
            Let_def handlers_settle stamps)
  qed
qed

theorem webhook_replay_witness:
  "find (\<lambda>x. p_externalPaymentId x = Some (po_id (wp_object (wh_payload ex_succeeded))))
       (payments (ex_db COMPLETED [ex_payment P_REFUNDED])) = Some (ex_payment P_REFUNDED)
   \<and> find (\<lambda>x. p_externalPaymentId x = Some (po_id (wp_object (wh_payload ex_succeeded))))
       (payments (handleStripePaymentSuccess (ex_db COMPLETED [ex_payment P_REFUNDED])
          1704106800000 (wp_object (wh_payload ex_succeeded))))
     = Some (ex_settled_payment ''2024-01-01T11:00:00.000Z'')
   \<and> map payment_core (payments (deliver (ex_db COMPLETED [ex_payment P_PENDING])
         (map (\<lambda>t'. (t', ex_succeeded)) [1704106800000, 1704106860000, 1704106920000])))
     = map payment_core (payments (deliver (ex_db COMPLETED [ex_payment P_PENDING])
         [(1704106800000, ex_succeeded)]))
   \<and> wh_provider ex_succeeded = ''stripe''
   \<and> wp_type (wh_payload ex_succeeded) = ''payment_intent.succeeded''
   \<and> (\<exists>p'. find (\<lambda>x. p_externalPaymentId x = Some ''pi_1'')
              (payments (deliver (ex_db COMPLETED [ex_payment P_REFUNDED])
                 (map (\<lambda>t'. (t', ex_succeeded)) ([1704106800000] @ [1704106860000])))) = Some p'
          \<and> p_status p' = P_COMPLETED
          \<and> map_of (p_metadata p') ''completedAt'' = Some (JStr (toISOString 1704106860000)))
   \<and> wh_provider ex_failed = ''stripe''
   \<and> wp_type (wh_payload ex_failed) = ''payment_intent.payment_failed''
   \<and> (\<exists>p'. find (\<lambda>x. p_externalPaymentId x = Some ''pi_1'')
              (payments (deliver (ex_db COMPLETED [ex_payment P_REFUNDED])
                 (map (\<lambda>t'. (t', ex_failed)) ([1704106800000] @ [1704106860000])))) = Some p'
          \<and> p_status p' = P_FAILED
          \<and> map_of (p_metadata p') ''failedAt'' = Some (JStr (toISOString 1704106860000)))"
proof -
  have f: "find (\<lambda>x. p_externalPaymentId x = Some (po_id (wp_object (wh_payload ex_succeeded))))
       (payments (ex_db COMPLETED [ex_payment P_REFUNDED])) = Some (ex_payment P_REFUNDED)"
    by code_simp
  have f': "find (\<lambda>x. p_externalPaymentId x = Some (po_id (wp_object (wh_payload ex_failed))))
       (payments (ex_db COMPLETED [ex_payment P_REFUNDED])) = Some (ex_payment P_REFUNDED)"
    by code_simp
  have k: "wh_provider ex_failed = ''stripe''"
    "wp_type (wh_payload ex_failed) = ''payment_intent.payment_failed''"
    "po_id (wp_object (wh_payload ex_failed)) = ''pi_1''"
    by (simp_all add: ex_failed_def)
  have e: "(ex_payment P_REFUNDED)\<lparr>p_status := P_COMPLETED,
                     p_metadata :=
                       spread_set ''completedAt'' (JStr (toISOString 1704106800000))
                         (spread_set ''stripePaymentIntent''
                            (po_json (wp_object (wh_payload ex_succeeded)))
                            (p_metadata (ex_payment P_REFUNDED)))\<rparr>
      = ex_settled_payment ''2024-01-01T11:00:00.000Z''"
    by code_simp
  from webhook_replay [of "ex_db COMPLETED [ex_payment P_PENDING]" ex_succeeded 1704106800000
      "[1704106860000, 1704106920000]"]
  have r: "map payment_core (payments (deliver (ex_db COMPLETED [ex_payment P_PENDING])
         (map (\<lambda>t'. (t', ex_succeeded)) [1704106800000, 1704106860000, 1704106920000])))
     = map payment_core (payments (deliver (ex_db COMPLETED [ex_payment P_PENDING])
         [(1704106800000, ex_succeeded)]))"
    by blast
  from webhook_replay [of "ex_db COMPLETED [ex_payment P_REFUNDED]" ex_succeeded 0 "[]"
      "wp_object (wh_payload ex_succeeded)" "ex_payment P_REFUNDED" 1704106800000] f
  have s: "find (\<lambda>x. p_externalPaymentId x = Some (po_id (wp_object (wh_payload ex_succeeded))))
       (payments (handleStripePaymentSuccess (ex_db COMPLETED [ex_payment P_REFUNDED])
          1704106800000 (wp_object (wh_payload ex_succeeded))))
     = Some (ex_settled_payment ''2024-01-01T11:00:00.000Z'')"
    unfolding e by blast
  from webhook_replay [of "ex_db COMPLETED [ex_payment P_REFUNDED]" ex_failed 1704106860000
      "[1704106800000]" "wp_object (wh_payload ex_failed)" "ex_payment P_REFUNDED"] f' k
  have l: "\<exists>p'. find (\<lambda>x. p_externalPaymentId x = Some ''pi_1'')
              (payments (deliver (ex_db COMPLETED [ex_payment P_REFUNDED])
                 (map (\<lambda>t'. (t', ex_failed)) ([1704106800000] @ [1704106860000])))) = Some p'
          \<and> p_status p' = P_FAILED
          \<and> map_of (p_metadata p') ''failedAt'' = Some (JStr (toISOString 1704106860000))"
    by (simp add: k) blast
  have k': "wh_provider ex_succeeded = ''stripe''"
    "wp_type (wh_payload ex_succeeded) = ''payment_intent.succeeded''"
    "po_id (wp_object (wh_payload ex_succeeded)) = ''pi_1''"
    by (simp_all add: ex_succeeded_def)
  from webhook_replay [of "ex_db COMPLETED [ex_payment P_REFUNDED]" ex_succeeded 1704106860000
      "[1704106800000]" "wp_object (wh_payload ex_succeeded)" "ex_payment P_REFUNDED"] f k'
  have l': "\<exists>p'. find (\<lambda>x. p_externalPaymentId x = Some ''pi_1'')
              (payments (deliver (ex_db COMPLETED [ex_payment P_REFUNDED])
                 (map (\<lambda>t'. (t', ex_succeeded)) ([1704106800000] @ [1704106860000])))) = Some p'
          \<and> p_status p' = P_COMPLETED
          \<and> map_of (p_metadata p') ''completedAt'' = Some (JStr (toISOString 1704106860000))"
    by (simp add: k') blast
  from f s r k l k' l' show ?thesis by blast
qed

text \<open>
  Against C2 as stated: a Refunded payment, and the success event of its provider
  reference delivered (again)
  afterwards: the payment is Completed once more, and its metadata is rewritten.
\<close>

theorem webhook_terminal_counterexample:
  "p_status (ex_payment P_REFUNDED) = P_REFUNDED
   \<and> PaymentsService_handleWebhook (ex_db COMPLETED [ex_payment P_REFUNDED]) 1704106800000
        ex_succeeded
     = (Inr (), ex_db COMPLETED [ex_settled_payment ''2024-01-01T11:00:00.000Z''])
   \<and> p_status (ex_settled_payment ''2024-01-01T11:00:00.000Z'') = P_COMPLETED
   \<and> ex_settled_payment ''2024-01-01T11:00:00.000Z'' \<noteq> ex_payment P_REFUNDED
   \<and> deliver (ex_db COMPLETED [ex_payment P_PENDING])
        [(1704106800000, ex_succeeded), (1704106860000, ex_succeeded)]
     \<noteq> deliver (ex_db COMPLETED [ex_payment P_PENDING]) [(1704106800000, ex_succeeded)]"
  by code_simp

section \<open>Shifts, pay and order numbers\<close>

lemma overlap_where_iff:
  assumes "startTime < endTime" and "s_startTime x < s_endTime x"
  shows "overlap_where employeeId startTime endTime x \<longleftrightarrow>
     s_employeeId x = employeeId \<and> s_status x \<in> {S_SCHEDULED, S_ACTIVE}
     \<and> {s_startTime x ..< s_endTime x} \<inter> {startTime ..< endTime} \<noteq> {}"
proof -
  have "{s_startTime x ..< s_endTime x} \<inter> {startTime ..< endTime} \<noteq> {}
      \<longleftrightarrow> s_startTime x < endTime \<and> startTime < s_endTime x"
    using assms by auto
  then show ?thesis using assms unfolding overlap_where_def by auto
qed

text \<open>
  The run of \<^verbatim>\<open>createShift\<close> that no other request interrupts, on stored shifts that
  have their start before their end: for an employee the caller may access and a
  request with start before end, the call fails with the overlap error and inserts no
  row exactly when the half-open interval of some Scheduled or Active shift of that
  employee meets the half-open interval of the request; otherwise the shift is
  inserted as Scheduled with the requested times.
\<close>

lemma createShift_sequential:
  assumes "EmployeesService_findOne d (csd_employeeId dto) currentUser = Inr employee"
    and "csd_startTime dto < csd_endTime dto"
    and "\<forall>x \<in> set (shifts d). s_employeeId x = csd_employeeId dto \<longrightarrow> s_startTime x < s_endTime x"
  shows "(if \<exists>x \<in> set (shifts d). s_employeeId x = csd_employeeId dto
              \<and> s_status x \<in> {S_SCHEDULED, S_ACTIVE}
              \<and> {s_startTime x ..< s_endTime x} \<inter> {csd_startTime dto ..< csd_endTime dto} \<noteq> {}
          then EmployeesService_createShift d newId dto currentUser =
                 (Inl (BadRequestException ''Employee has overlapping shift scheduled''), d)
          else EmployeesService_createShift d newId dto currentUser =
                 (Inr (fst (createShift_insert d newId dto)),
                  d\<lparr>shifts := shifts d @ [fst (createShift_insert d newId dto)]\<rparr>))"
proof -
  let ?P = "overlap_where (csd_employeeId dto) (csd_startTime dto) (csd_endTime dto)"
  have iff: "(filter ?P (shifts d) \<noteq> []) \<longleftrightarrow>
      (\<exists>x \<in> set (shifts d). s_employeeId x = csd_employeeId dto
              \<and> s_status x \<in> {S_SCHEDULED, S_ACTIVE}
              \<and> {s_startTime x ..< s_endTime x} \<inter> {csd_startTime dto ..< csd_endTime dto} \<noteq> {})"
  proof -
    have "(filter ?P (shifts d) \<noteq> []) \<longleftrightarrow> (\<exists>x \<in> set (shifts d). ?P x)"
      by (simp add: filter_empty_conv)
    also have "\<dots> \<longleftrightarrow> (\<exists>x \<in> set (shifts d). s_employeeId x = csd_employeeId dto
              \<and> s_status x \<in> {S_SCHEDULED, S_ACTIVE}
              \<and> {s_startTime x ..< s_endTime x} \<inter> {csd_startTime dto ..< csd_endTime dto} \<noteq> {})"
    proof (rule bex_cong [OF refl])
      fix x assume x: "x \<in> set (shifts d)"
      show "?P x \<longleftrightarrow> (s_employeeId x = csd_employeeId dto
              \<and> s_status x \<in> {S_SCHEDULED, S_ACTIVE}
              \<and> {s_startTime x ..< s_endTime x} \<inter> {csd_startTime dto ..< csd_endTime dto} \<noteq> {})"
      proof (cases "s_employeeId x = csd_employeeId dto")
        case True
        with assms(3) x have "s_startTime x < s_endTime x" by blast
        from overlap_where_iff [OF assms(2) this] show ?thesis .
      next
        case False
        then show ?thesis by (simp add: overlap_where_def)
      qed
    qed
    finally show ?thesis .
  qed
  have len: "(0 < length (take 1 (filter ?P (shifts d)))) \<longleftrightarrow> filter ?P (shifts d) \<noteq> []"
    by (cases "filter ?P (shifts d)") simp_all
  show ?thesis
  proof (cases "filter ?P (shifts d) = []")
    case True
    with iff have no: "\<not> (\<exists>x \<in> set (shifts d). s_employeeId x = csd_employeeId dto
              \<and> s_status x \<in> {S_SCHEDULED, S_ACTIVE}
              \<and> {s_startTime x ..< s_endTime x} \<inter> {csd_startTime dto ..< csd_endTime dto} \<noteq> {})"
      by blast
    have "EmployeesService_createShift d newId dto currentUser =
                 (Inr (fst (createShift_insert d newId dto)),
                  d\<lparr>shifts := shifts d @ [fst (createShift_insert d newId dto)]\<rparr>)"
      using assms(1, 2) True
      by (simp add: EmployeesService_createShift_def createShift_check_def
            createShift_insert_def Let_def)
    with no show ?thesis by (simp only: if_False)
  next
    case False
    with iff have yes: "\<exists>x \<in> set (shifts d). s_employeeId x = csd_employeeId dto
              \<and> s_status x \<in> {S_SCHEDULED, S_ACTIVE}
              \<and> {s_startTime x ..< s_endTime x} \<inter> {csd_startTime dto ..< csd_endTime dto} \<noteq> {}"
      by blast
    have "EmployeesService_createShift d newId dto currentUser =
                 (Inl (BadRequestException ''Employee has overlapping shift scheduled''), d)"
      using assms(1, 2) False len
      by (simp add: EmployeesService_createShift_def createShift_check_def Let_def)
    with yes show ?thesis by (simp only: if_True)
  qed
qed

text \<open>
  The two boundary cases, next to a Scheduled shift from 10:00 to 11:00: a shift from
  11:00 to 12:00 is inserted, a shift from 10:59 to 11:30 is refused.
\<close>

lemma createShift_boundaries:
  "EmployeesService_createShift (ex_staff [ex_shift 1704189600000 1704193200000 S_SCHEDULED])
        ''shift-2'' (ex_createShiftDto 1704193200000 1704196800000) ex_owner
     = (Inr ((ex_shift 1704193200000 1704196800000 S_SCHEDULED)\<lparr>s_id := ''shift-2''\<rparr>),
        ex_staff [ex_shift 1704189600000 1704193200000 S_SCHEDULED,
                  (ex_shift 1704193200000 1704196800000 S_SCHEDULED)\<lparr>s_id := ''shift-2''\<rparr>])
   \<and> EmployeesService_createShift (ex_staff [ex_shift 1704189600000 1704193200000 S_SCHEDULED])
        ''shift-2'' (ex_createShiftDto 1704193140000 1704195000000) ex_owner
     = (Inl (BadRequestException ''Employee has overlapping shift scheduled''),
        ex_staff [ex_shift 1704189600000 1704193200000 S_SCHEDULED])"
  by code_simp

text \<open>
  C7. The overlap check does not decide as the half-open intervals do. First run: two
  requests for the same employee, 10:00 to 11:00 and 10:30 to 11:30, both pass the
  overlap query before either inserts, and both rows are stored, overlapping and
  Scheduled; run one after the other, the second would have been refused. Second run:
  a clock-in at 23:59:59.999 of the server's day, without a Scheduled shift, stores an
  Active shift that begins and ends at that instant, so its half-open interval is
  empty, and a request from 23:30 to 00:30 is still refused with the overlap error,
  through the third disjunct of the query.
\<close>

theorem createShift_misses_overlap:
  "createShift_check (ex_staff []) (ex_createShiftDto 1704189600000 1704193200000) ex_owner
     = Inr ex_employee
   \<and> createShift_check (ex_staff []) (ex_createShiftDto 1704191400000 1704195000000) ex_owner
     = Inr ex_employee
   \<and> createShift_insert (ex_staff []) ''shift-a'' (ex_createShiftDto 1704189600000 1704193200000)
     = (ex_shift_a, ex_staff [ex_shift_a])
   \<and> createShift_insert (ex_staff [ex_shift_a]) ''shift-b''
        (ex_createShiftDto 1704191400000 1704195000000)
     = (ex_shift_b, ex_staff [ex_shift_a, ex_shift_b])
   \<and> s_employeeId ex_shift_a = s_employeeId ex_shift_b
   \<and> s_status ex_shift_a = S_SCHEDULED \<and> s_status ex_shift_b = S_SCHEDULED
   \<and> s_startTime ex_shift_a \<le> s_startTime ex_shift_b
   \<and> s_startTime ex_shift_b < s_endTime ex_shift_a
   \<and> s_startTime ex_shift_b < s_endTime ex_shift_b
   \<and> EmployeesService_createShift (ex_staff [ex_shift_a]) ''shift-b''
        (ex_createShiftDto 1704191400000 1704195000000) ex_owner
     = (Inl (BadRequestException ''Employee has overlapping shift scheduled''),
        ex_staff [ex_shift_a])
   \<and> EmployeesService_clockIn (ex_staff []) 0 1704239999999 ''shift-1''
        \<lparr>ci_employeeId = ''emp-1'', ci_notes = None\<rparr> ex_owner
     = (Inr ex_unscheduled_shift, ex_staff [ex_unscheduled_shift])
   \<and> toISOString 1704239999999 = ''2024-01-02T23:59:59.999Z''
   \<and> s_startTime ex_unscheduled_shift = s_endTime ex_unscheduled_shift
   \<and> s_status ex_unscheduled_shift = S_ACTIVE
   \<and> EmployeesService_createShift (ex_staff [ex_unscheduled_shift]) ''shift-2''
        (ex_createShiftDto 1704238200000 1704241800000) ex_owner
     = (Inl (BadRequestException ''Employee has overlapping shift scheduled''),
        ex_staff [ex_unscheduled_shift])"
  by code_simp

text \<open>
  C8 (as the code has it). Clocking out an Active shift returns
  \<^verbatim>\<open>hoursWorked = max(0, (now - start) / 3600000 - breakDuration / 60)\<close>, where \<open>start\<close>
  is the actual start of the shift, or its scheduled start when it has none, and
  \<^verbatim>\<open>calculatedPay = hoursWorked * (hourlyWage / 100)\<close>: a binary64 amount in major
  units that is not rounded to an integer. The pay is null when the wage is null, and
  also when it is zero. The shift is stored as Completed with \<open>now\<close> as its actual end.
\<close>

theorem clockOut_pay:
  assumes "find (\<lambda>x. s_id x = co_shiftId dto) (shifts d) = Some shift"
    and "find (\<lambda>x. e_id x = s_employeeId shift) (employees d) = Some employee"
    and "EmployeesService_clockOut d now dto currentUser = (Inr res, d')"
  shows "s_status shift = S_ACTIVE
     \<and> cor_hoursWorked res =
          Math_max 0
            (js_sub
               (js_div (js_sub (of_int now)
                          (of_int (case s_actualStartTime shift of
                                     Some t \<Rightarrow> t | None \<Rightarrow> s_startTime shift)))
                       3600000)
               (js_div (or_num (s_breakDuration shift) 0) 60))
     \<and> 0 \<le> cor_hoursWorked res
     \<and> cor_calculatedPay res =
          (case e_hourlyWage employee of
             None \<Rightarrow> None
           | Some w \<Rightarrow> if w = 0 then None
                       else Some (js_mul (cor_hoursWorked res) (js_div w 100)))
     \<and> (e_hourlyWage employee = None \<longrightarrow> cor_calculatedPay res = None)
     \<and> s_status (cor_shift res) = S_COMPLETED
     \<and> s_actualEndTime (cor_shift res) = Some now
     \<and> d' = update_shift (co_shiftId dto) (cor_shift res) d"
proof -
  from assms have a: "clockOut_active d now dto shift employee = (Inr res, d')"
    by (auto simp add: EmployeesService_clockOut_def split: if_splits option.splits)
  then have act: "s_status shift = S_ACTIVE"
    by (auto simp add: clockOut_active_def split: if_splits)
  with a have res: "res = \<lparr>cor_shift = shift
               \<lparr>s_status := S_COMPLETED,
                s_actualEndTime := Some now,
                s_notes := Some
                  (append_note (s_notes shift)
                     (''Clocked out: '' @ or_str (co_notes dto) ''No notes''))\<rparr>,
            cor_hoursWorked = adjustedHours now shift,
            cor_calculatedPay = calculatedPay (e_hourlyWage employee) (adjustedHours now shift)\<rparr>"
    and d': "d' = update_shift (co_shiftId dto) (cor_shift res) d"
    by (auto simp add: clockOut_active_def Let_def)
  show ?thesis
    using act d' unfolding res
    by (auto simp add: adjustedHours_def calculatedPay_def Let_def Math_max_def
          split: option.splits)
qed

theorem clockOut_pay_witness:
  "find (\<lambda>x. s_id x = co_shiftId ex_clockOutDto) (shifts (ex_staff [ex_active_shift]))
      = Some ex_active_shift
   \<and> find (\<lambda>x. e_id x = s_employeeId ex_active_shift) (employees (ex_staff [ex_active_shift]))
      = Some ex_employee
   \<and> EmployeesService_clockOut (ex_staff [ex_active_shift]) 1704193200000 ex_clockOutDto ex_owner
      = (Inr ex_clockOutResult, ex_staff [ex_completed_shift])
   \<and> cor_calculatedPay ex_clockOutResult
      = Some (js_mul (cor_hoursWorked ex_clockOutResult) (js_div 1550 100))"
proof -
  have s: "find (\<lambda>x. s_id x = co_shiftId ex_clockOutDto) (shifts (ex_staff [ex_active_shift]))
      = Some ex_active_shift"
    by code_simp
  have e: "find (\<lambda>x. e_id x = s_employeeId ex_active_shift) (employees (ex_staff [ex_active_shift]))
      = Some ex_employee"
    by code_simp
  have c: "EmployeesService_clockOut (ex_staff [ex_active_shift]) 1704193200000 ex_clockOutDto
      ex_owner = (Inr ex_clockOutResult, ex_staff [ex_completed_shift])"
    by code_simp
  from clockOut_pay [OF s e c] s e c show ?thesis
    by (simp add: ex_employee_def)
qed

text \<open>
  Against C8 as stated: one hour worked at an hourly wage of 1550 minor units; the pay
  returned is 15.5, not
  the integer 1550 that rounding hours times the wage in minor units would give.
\<close>

theorem clockOut_pay_counterexample:
  "EmployeesService_clockOut (ex_staff [ex_active_shift]) 1704193200000 ex_clockOutDto ex_owner
      = (Inr ex_clockOutResult, ex_staff [ex_completed_shift])
   \<and> e_hourlyWage ex_employee = Some 1550
   \<and> cor_hoursWorked ex_clockOutResult = 1
   \<and> cor_calculatedPay ex_clockOutResult = Some (31 / 2)
   \<and> cor_calculatedPay ex_clockOutResult
       \<noteq> Some (Math_round (js_mul (cor_hoursWorked ex_clockOutResult) 1550))
   \<and> Math_round (js_mul (cor_hoursWorked ex_clockOutResult) 1550) = 1550
   \<and> of_int \<lfloor>31 / 2 :: rat\<rfloor> \<noteq> (31 / 2 :: rat)"
  by code_simp

text \<open>
  C6. The order number is not unique per restaurant and day. The date part of the number
  is the UTC date, while the counter counts the orders of the server's local day; on a
  server three hours east of Greenwich, an order placed at 20:30 UTC and the next one
  placed at 21:30 UTC, after local midnight, both get \<^verbatim>\<open>20240101-001\<close>. Nor does anything
  serialise the count and the insert: two requests that both count before either
  inserts get the same number, on any server.
\<close>

theorem order_number_collision:
  "map_sum id o_orderNumber
     (fst (OrdersService_create ex_shop 180 1704141000000 ''order-a'' ex_createOrderDto ex_customer))
     = Inr ''20240101-001''
   \<and> map_sum id o_orderNumber
     (fst (OrdersService_create
        (snd (OrdersService_create ex_shop 180 1704141000000 ''order-a''
                ex_createOrderDto ex_customer))
        180 1704144600000 ''order-b'' ex_createOrderDto ex_customer))
     = Inr ''20240101-001''
   \<and> create_validate ex_shop 0 1704141000000 ex_createOrderDto
     = Inr (''20240101-001'', 2598,
            [\<lparr>oi_orderId = [], oi_productId = ''prod-1'', oi_variant = None, oi_quantity = 2,
              oi_unitPrice = 1299, oi_totalPrice = 2598, oi_specialInstructions = None\<rparr>])
   \<and> create_validate ex_shop 0 1704141000500 ex_createOrderDto
     = create_validate ex_shop 0 1704141000000 ex_createOrderDto
   \<and> map o_orderNumber (orders (snd
        (create_transaction
           (snd (create_transaction ex_shop 1704141001000 ''order-a'' ex_createOrderDto ex_customer
              (''20240101-001'', 2598,
               [\<lparr>oi_orderId = [], oi_productId = ''prod-1'', oi_variant = None, oi_quantity = 2,
                 oi_unitPrice = 1299, oi_totalPrice = 2598, oi_specialInstructions = None\<rparr>])))
           1704141001500 ''order-b'' ex_createOrderDto ex_customer
           (''20240101-001'', 2598,
            [\<lparr>oi_orderId = [], oi_productId = ''prod-1'', oi_variant = None, oi_quantity = 2,
              oi_unitPrice = 1299, oi_totalPrice = 2598, oi_specialInstructions = None\<rparr>]))))
     = [''20240101-001'', ''20240101-001'']"
  by code_simp

end
